theory Spec2Isabelle
  imports Main "HOL-Library.Sublist"
begin

section \<open>JavaScript values\<close>

text \<open>
  The values the server handles are the values of JSON documents, plus \<open>undefined\<close>
  (what reading a missing property gives). Numbers are restricted to integers: \<open>JNum n\<close>
  is the number whose shortest decimal digits, filled up with zeros, are \<open>n\<close>; numbers
  with a fraction are not covered. Strings are lists of bytes, which are the characters
  of an ASCII string; an object is the list of its properties in insertion order.
\<close>

datatype json =
    JUndefined
  | JNull
  | JBool bool
  | JNum int
  | JStr string
  | JArr "json list"
  | JObj "(string \<times> json) list"

text \<open>What a \<open>throw\<close> carries: the class of the error and its message.\<close>

datatype error = Error string | TypeError string | SyntaxError string

fun message :: "error \<Rightarrow> string" where
  "message (Error m) = m"
| "message (TypeError m) = m"
| "message (SyntaxError m) = m"

text \<open>
  \<open>args.k\<close> on a record, given as the list of its properties (each key once):
  \<open>undefined\<close> when the key is missing.
\<close>

definition get :: "(string \<times> json) list \<Rightarrow> string \<Rightarrow> json" where
  "get args k = (case map_of args k of None \<Rightarrow> JUndefined | Some v \<Rightarrow> v)"

text \<open>Truthiness, as \<open>if (v)\<close>, \<open>!v\<close> and \<open>v || d\<close> test it.\<close>

fun truthy :: "json \<Rightarrow> bool" where
  "truthy JUndefined = False"
| "truthy JNull = False"
| "truthy (JBool b) = b"
| "truthy (JNum n) = (n \<noteq> 0)"
| "truthy (JStr s) = (s \<noteq> [])"
| "truthy (JArr xs) = True"
| "truthy (JObj kvs) = True"

text \<open>\<open>a || b\<close> and \<open>a ?? b\<close>.\<close>

definition or_else :: "json \<Rightarrow> json \<Rightarrow> json" where
  "or_else a b = (if truthy a then a else b)"

definition nullish :: "json \<Rightarrow> json \<Rightarrow> json" where
  "nullish a b = (if a = JUndefined \<or> a = JNull then b else a)"

text \<open>Decimal digits of a number.\<close>

fun show_nat :: "nat \<Rightarrow> string" where
  "show_nat n = (if n < 10 then [''0123456789'' ! n]
                 else show_nat (n div 10) @ [''0123456789'' ! (n mod 10)])"

declare show_nat.simps [simp del]

text \<open>
  \<open>Number.prototype.toString\<close> on an integer: all the digits below \<open>10^21\<close>, and from
  there on the digits without their final zeros, a point after the first, and the
  exponent.
\<close>

definition strip_zeros :: "string \<Rightarrow> string" where
  "strip_zeros ds = rev (dropWhile (\<lambda>c. c = CHR ''0'') (rev ds))"

definition exponent_text :: "string \<Rightarrow> string" where
  "exponent_text ds =
     (case strip_zeros ds of
        [] \<Rightarrow> ds
      | d # rest \<Rightarrow>
          d # (if rest = [] then [] else CHR ''.'' # rest) @ ''e+'' @ show_nat (length ds - 1))"

definition show_int :: "int \<Rightarrow> string" where
  "show_int i =
     (if i < 0 then ''-'' else [])
     @ (if \<bar>i\<bar> < 1000000000000000000000 then show_nat (nat \<bar>i\<bar>)
        else exponent_text (show_nat (nat \<bar>i\<bar>)))"

text \<open>\<open>xs.join(sep)\<close> on strings.\<close>

fun join :: "string \<Rightarrow> string list \<Rightarrow> string" where
  "join sep [] = []"
| "join sep [x] = x"
| "join sep (x # y # ys) = x @ sep @ join sep (y # ys)"

text \<open>
  \<open>String(v)\<close>, which is also what a template literal and \<open>URLSearchParams.append\<close>
  apply to a value: an array prints its elements joined by commas, \<open>null\<close> and
  \<open>undefined\<close> elements as the empty string. An object prints as \<open>[object Object]\<close>;
  the objects that have a key \<open>toString\<close> or \<open>valueOf\<close> of their own, on which the
  conversion throws, are not covered.
\<close>

fun ToString :: "json \<Rightarrow> string" where
  "ToString JUndefined = ''undefined''"
| "ToString JNull = ''null''"
| "ToString (JBool b) = (if b then ''true'' else ''false'')"
| "ToString (JNum n) = show_int n"
| "ToString (JStr s) = s"
| "ToString (JArr xs) =
     join '','' (map (\<lambda>x. if x = JUndefined \<or> x = JNull then [] else ToString x) xs)"
| "ToString (JObj kvs) = ''[object Object]''"

subsection \<open>\<open>JSON.stringify\<close>\<close>

text \<open>
  The platform's serialiser, following ECMAScript's \<open>SerializeJSONProperty\<close>:
  \<open>undefined\<close> has no serialisation (\<open>None\<close>), a property whose value is
  \<open>undefined\<close> is left out of its object, an \<open>undefined\<close> array element is written
  \<open>null\<close>. \<open>gap\<close> is the indentation unit and \<open>ind\<close> the current indentation.
\<close>

definition hex_digit :: "nat \<Rightarrow> char" where
  "hex_digit n = ''0123456789abcdef'' ! (n mod 16)"

definition quote_char :: "char \<Rightarrow> string" where
  "quote_char c =
     (if c = CHR 0x22 then [CHR 0x5C, CHR 0x22]
      else if c = CHR 0x5C then [CHR 0x5C, CHR 0x5C]
      else if c = CHR 0x08 then [CHR 0x5C, CHR ''b'']
      else if c = CHR 0x0C then [CHR 0x5C, CHR ''f'']
      else if c = CHR 0x0A then [CHR 0x5C, CHR ''n'']
      else if c = CHR 0x0D then [CHR 0x5C, CHR ''r'']
      else if c = CHR 0x09 then [CHR 0x5C, CHR ''t'']
      else if (of_char c :: nat) < 32
        then [CHR 0x5C, CHR ''u'', CHR ''0'', CHR ''0'',
              hex_digit (of_char c div 16), hex_digit (of_char c)]
      else [c])"

definition Quote :: "string \<Rightarrow> string" where
  "Quote s = CHR 0x22 # concat (map quote_char s) @ [CHR 0x22]"

fun ser :: "string \<Rightarrow> string \<Rightarrow> json \<Rightarrow> string option"
  and ser_elems :: "string \<Rightarrow> string \<Rightarrow> json list \<Rightarrow> string list"
  and ser_props :: "string \<Rightarrow> string \<Rightarrow> (string \<times> json) list \<Rightarrow> string list"
where
  "ser gap ind JUndefined = None"
| "ser gap ind JNull = Some ''null''"
| "ser gap ind (JBool b) = Some (if b then ''true'' else ''false'')"
| "ser gap ind (JNum n) = Some (show_int n)"
| "ser gap ind (JStr s) = Some (Quote s)"
| "ser gap ind (JArr xs) =
     (let partial = ser_elems gap (ind @ gap) xs in
      Some (if partial = [] then ''[]''
            else if gap = [] then ''['' @ join '','' partial @ '']''
            else ''['' @ [CHR 0x0A] @ (ind @ gap)
                 @ join ('','' @ [CHR 0x0A] @ (ind @ gap)) partial
                 @ [CHR 0x0A] @ ind @ '']''))"
| "ser gap ind (JObj kvs) =
     (let partial = ser_props gap (ind @ gap) kvs in
      Some (if partial = [] then ''{}''
            else if gap = [] then ''{'' @ join '','' partial @ ''}''
            else ''{'' @ [CHR 0x0A] @ (ind @ gap)
                 @ join ('','' @ [CHR 0x0A] @ (ind @ gap)) partial
                 @ [CHR 0x0A] @ ind @ ''}''))"
| "ser_elems gap ind [] = []"
| "ser_elems gap ind (x # xs) =
     (case ser gap ind x of None \<Rightarrow> ''null'' | Some s \<Rightarrow> s) # ser_elems gap ind xs"
| "ser_props gap ind [] = []"
| "ser_props gap ind ((k, v) # kvs) =
     (case ser gap ind v of
        None \<Rightarrow> ser_props gap ind kvs
      | Some s \<Rightarrow> (Quote k @ '':'' @ (if gap = [] then [] else '' '') @ s)
                  # ser_props gap ind kvs)"

text \<open>
  \<open>JSON.stringify(v, null, space)\<close>; \<open>JSON.stringify(v)\<close> is the case \<open>space = 0\<close>.
\<close>

definition JSON_stringify :: "json \<Rightarrow> nat \<Rightarrow> string option" where
  "JSON_stringify v space = ser (replicate (min space 10) CHR '' '') [] v"

subsection \<open>\<open>URLSearchParams\<close>\<close>

text \<open>
  A \<open>URLSearchParams\<close> is the list of its name-value pairs; \<open>append\<close> adds one at the
  end. \<open>toString\<close> is the \<open>application/x-www-form-urlencoded\<close> serialiser: letters,
  digits and \<open>*-._\<close> stay, a space becomes \<open>+\<close>, every other byte is percent-encoded.
\<close>

definition upper_hex :: "nat \<Rightarrow> char" where
  "upper_hex n = ''0123456789ABCDEF'' ! (n mod 16)"

definition urlencode_char :: "char \<Rightarrow> string" where
  "urlencode_char c =
     (if c \<in> set ''ABCDEFGHIJKLMNOPQRSTUVWXYZabcdefghijklmnopqrstuvwxyz0123456789*-._''
        then [c]
      else if c = CHR '' '' then ''+''
      else [CHR ''%'', upper_hex (of_char c div 16), upper_hex (of_char c)])"

definition urlencode :: "string \<Rightarrow> string" where
  "urlencode s = concat (map urlencode_char s)"

definition params_toString :: "(string \<times> string) list \<Rightarrow> string" where
  "params_toString ps = join ''&'' (map (\<lambda>(k, v). urlencode k @ ''='' @ urlencode v) ps)"

section \<open>The platform: requests, responses and the environment\<close>

datatype verb = GET | POST | PUT | DELETE

text \<open>
  A form entry is a text field or a file part (its bytes and its file name); a request
  body is a text or a multipart form.
\<close>

datatype form_entry = Field string | File string string

datatype req_body = Text string | Form "(string \<times> form_entry) list"

record request =
  url :: string
  http_method :: verb
  headers :: "(string \<times> string) list"
  body :: "req_body option"

record response =
  status :: nat
  response_text :: string

text \<open>\<open>response.ok\<close>: the status is in the range 200 to 299.\<close>

definition ok :: "response \<Rightarrow> bool" where
  "ok r = (200 \<le> status r \<and> status r \<le> 299)"

text \<open>
  What the program takes from outside: the two secrets (\<open>loadSecrets\<close> is not
  modelled), and the platform functions \<open>fetch\<close>, \<open>JSON.parse\<close> and
  \<open>Buffer.from(_, "base64")\<close>, each of which returns a value or throws.
\<close>

record env =
  API_KEY :: string
  BASE_URL :: string
  fetch :: "request \<Rightarrow> error + response"
  JSON_parse :: "string \<Rightarrow> error + json"
  Buffer_from_base64 :: "json \<Rightarrow> error + string"

text \<open>
  A computation that talks to the backend gives the requests it has sent, in order, and
  its result: a value, or the error thrown.
\<close>

type_synonym 'a io = "request list \<times> (error + 'a)"

section \<open>The API client\<close>

text \<open>
  The request that \<open>apiRequest(endpoint, method, body)\<close> builds: the \<open>url\<close>, the
  \<open>headers\<close> and the \<open>options\<close> of the source. An omitted body is \<open>JUndefined\<close>.
\<close>

definition api_options :: "env \<Rightarrow> string \<Rightarrow> verb \<Rightarrow> json \<Rightarrow> request" where
  "api_options e endpoint m b =
     \<lparr>url = BASE_URL e @ endpoint,
      http_method = m,
      headers = [(''Authorization'', API_KEY e), (''Content-Type'', ''application/json'')],
      body = (if truthy b \<and> (m = POST \<or> m = PUT)
              then map_option Text (JSON_stringify b 0) else None)\<rparr>"

definition apiRequest :: "env \<Rightarrow> string \<Rightarrow> verb \<Rightarrow> json \<Rightarrow> json io" where
  "apiRequest e endpoint m b =
     ([api_options e endpoint m b],
      case fetch e (api_options e endpoint m b) of
        Inl err \<Rightarrow> Inl err
      | Inr r \<Rightarrow>
          if \<not> ok r
            then Inl (Error (''API Error '' @ show_nat (status r) @ '': '' @ response_text r))
          else if response_text r = [] then Inr (JObj [])
          else JSON_parse e (response_text r))"

section \<open>The tool catalog\<close>

text \<open>
  The schema of an argument: its type, the values of an \<open>enum\<close>, the items of an
  array, the properties and required names of an object. The descriptions of the
  single arguments are left out.
\<close>

datatype schema =
    SString
  | SNumber
  | SBoolean
  | SEnum "string list"
  | SArray schema
  | SObject "(string \<times> schema) list" "string list"

record tool =
  name :: string
  description :: string
  properties :: "(string \<times> schema) list"
  required :: "string list"

definition tools :: "tool list" where
  "tools =
   [\<lparr>name = ''list_workspaces'',
     description = ''List all workspaces you have access to'',
     properties =
        [],
     required = []\<rparr>,
    \<lparr>name = ''get_workspace'',
     description = ''Get workspace details including settings and metadata'',
     properties =
        [(''workspaceId'', SString)],
     required = [''workspaceId'']\<rparr>,
    \<lparr>name = ''create_workspace'',
     description = ''Create a new workspace. Requires templateId from list_workspace_templates and ownerId from list_users.'',
     properties =
        [(''title'', SString),
         (''displayId'', SString),
         (''icon'', SString),
         (''color'', SNumber),
         (''templateId'', SString),
         (''ownerId'', SString)],
     required = [''title'', ''displayId'', ''icon'', ''templateId'', ''ownerId'']\<rparr>,
    \<lparr>name = ''add_workspace_member'',
     description = ''Add a user to a workspace with Collaborator role (API does not support custom roles)'',
     properties =
        [(''workspaceId'', SString),
         (''userId'', SString)],
     required = [''workspaceId'', ''userId'']\<rparr>,
    \<lparr>name = ''list_boards'',
     description = ''List all boards in a workspace'',
     properties =
        [(''workspaceId'', SString)],
     required = [''workspaceId'']\<rparr>,
    \<lparr>name = ''get_board'',
     description = ''Get a specific board by ID (returns board info from workspace boards list)'',
     properties =
        [(''workspaceId'', SString),
         (''boardId'', SString)],
     required = [''workspaceId'', ''boardId'']\<rparr>,
    \<lparr>name = ''create_board'',
     description = ''Create a new board in a workspace. Requires templateId from list_board_templates.'',
     properties =
        [(''workspaceId'', SString),
         (''title'', SString),
         (''displayId'', SString),
         (''templateId'', SString),
         (''viewType'', SEnum [''Kanban'', ''Gantt'', ''List'', ''Overview''])],
     required = [''workspaceId'', ''title'', ''displayId'', ''templateId'', ''viewType'']\<rparr>,
    \<lparr>name = ''list_rows'',
     description = ''List rows (swimlanes) on a board for grouping items'',
     properties =
        [(''boardId'', SString)],
     required = [''boardId'']\<rparr>,
    \<lparr>name = ''list_statuses'',
     description = ''List status columns on a board (workflow stages)'',
     properties =
        [(''boardId'', SString)],
     required = [''boardId'']\<rparr>,
    \<lparr>name = ''create_row'',
     description = ''Create a new row (swimlane) on a board'',
     properties =
        [(''boardId'', SString),
         (''title'', SString),
         (''startDate'', SString),
         (''endDate'', SString)],
     required = [''boardId'', ''title'']\<rparr>,
    \<lparr>name = ''list_items'',
     description = ''Search and filter items across boards with pagination'',
     properties =
        [(''workspaceId'', SString),
         (''boardId'', SString),
         (''statusId'', SString),
         (''rowId'', SString),
         (''assignedUserId'', SString),
         (''ownerId'', SString),
         (''parentId'', SString),
         (''completed'', SBoolean),
         (''tags'', SArray SString),
         (''customFields'', SArray SString),
         (''createdSince'', SString),
         (''modifiedSince'', SString),
         (''completedSince'', SString),
         (''includeChildItems'', SBoolean),
         (''skip'', SNumber),
         (''take'', SNumber)],
     required = []\<rparr>,
    \<lparr>name = ''get_item'',
     description = ''Get full item details including custom fields and metadata'',
     properties =
        [(''itemId'', SString)],
     required = [''itemId'']\<rparr>,
    \<lparr>name = ''create_item'',
     description = ''Create a new item (task/card) on a board'',
     properties =
        [(''workspaceId'', SString),
         (''boardId'', SString),
         (''statusId'', SString),
         (''title'', SString),
         (''description'', SString),
         (''rowId'', SString),
         (''assigneeId'', SString),
         (''startDate'', SString),
         (''dueDate'', SString),
         (''color'', SNumber),
         (''tags'', SArray SString),
         (''customFields'', SArray (SObject [(''name'', SString), (''value'', SString)] [''name'', ''value''])),
         (''blocking'', SArray (SObject [(''itemId'', SString), (''direction'', SEnum [''FinishToStart'', ''StartToStart'', ''FinishToFinish'', ''StartToFinish''])] [''itemId'', ''direction''])),
         (''waiting'', SArray (SObject [(''itemId'', SString), (''direction'', SEnum [''FinishToStart'', ''StartToStart'', ''FinishToFinish'', ''StartToFinish''])] [''itemId'', ''direction'']))],
     required = [''workspaceId'', ''boardId'', ''statusId'', ''title'']\<rparr>,
    \<lparr>name = ''update_item'',
     description = ''Update item properties (title, status, board, assignee, dates, etc.)'',
     properties =
        [(''itemId'', SString),
         (''title'', SString),
         (''description'', SString),
         (''statusId'', SString),
         (''rowId'', SString),
         (''boardId'', SString),
         (''assigneeId'', SString),
         (''startDate'', SString),
         (''dueDate'', SString),
         (''color'', SNumber),
         (''tags'', SArray SString),
         (''customFields'', SArray (SObject [(''name'', SString), (''value'', SString)] [''name'', ''value''])),
         (''blocking'', SArray (SObject [(''itemId'', SString), (''direction'', SEnum [''FinishToStart'', ''StartToStart'', ''FinishToFinish'', ''StartToFinish''])] [''itemId'', ''direction''])),
         (''waiting'', SArray (SObject [(''itemId'', SString), (''direction'', SEnum [''FinishToStart'', ''StartToStart'', ''FinishToFinish'', ''StartToFinish''])] [''itemId'', ''direction''])),
         (''archived'', SBoolean),
         (''milestone'', SBoolean),
         (''progress'', SNumber),
         (''parentId'', SString)],
     required = [''itemId'']\<rparr>,
    \<lparr>name = ''delete_item'',
     description = ''Permanently delete an item'',
     properties =
        [(''itemId'', SString)],
     required = [''itemId'']\<rparr>,
    \<lparr>name = ''move_item'',
     description = ''Move an item to a different board, status column, or row (swimlane)'',
     properties =
        [(''itemId'', SString),
         (''targetBoardId'', SString),
         (''targetStatusId'', SString),
         (''targetRowId'', SString)],
     required = [''itemId'']\<rparr>,
    \<lparr>name = ''archive_item'',
     description = ''Archive or unarchive an item (soft delete - item can be restored)'',
     properties =
        [(''itemId'', SString),
         (''archived'', SBoolean)],
     required = [''itemId'']\<rparr>,
    \<lparr>name = ''list_attachments'',
     description = ''List all attachments on an item'',
     properties =
        [(''itemId'', SString)],
     required = [''itemId'']\<rparr>,
    \<lparr>name = ''get_attachment'',
     description = ''Get attachment metadata (name, size, type)'',
     properties =
        [(''attachmentId'', SString)],
     required = [''attachmentId'']\<rparr>,
    \<lparr>name = ''download_attachment'',
     description = ''Download attachment file content by ID'',
     properties =
        [(''attachmentId'', SString)],
     required = [''attachmentId'']\<rparr>,
    \<lparr>name = ''update_attachment'',
     description = ''Update attachment name'',
     properties =
        [(''attachmentId'', SString),
         (''name'', SString)],
     required = [''attachmentId'', ''name'']\<rparr>,
    \<lparr>name = ''delete_attachment'',
     description = ''Permanently delete an attachment'',
     properties =
        [(''attachmentId'', SString)],
     required = [''attachmentId'']\<rparr>,
    \<lparr>name = ''upload_attachment'',
     description = ''Upload a file attachment to an item. Note: For binary files, content should be base64 encoded.'',
     properties =
        [(''itemId'', SString),
         (''name'', SString),
         (''content'', SString)],
     required = [''itemId'', ''name'', ''content'']\<rparr>,
    \<lparr>name = ''list_users'',
     description = ''List all users in the organization'',
     properties =
        [],
     required = []\<rparr>,
    \<lparr>name = ''get_time_logs'',
     description = ''Get time logs for a workspace within a date range. Can filter by boards, rows, users, or tags.'',
     properties =
        [(''workspaceId'', SString),
         (''startDate'', SString),
         (''endDate'', SString),
         (''boardIds'', SArray SString),
         (''rowIds'', SArray SString),
         (''userIds'', SArray SString),
         (''tags'', SArray SString)],
     required = [''workspaceId'', ''startDate'', ''endDate'']\<rparr>,
    \<lparr>name = ''list_workspace_templates'',
     description = ''List available workspace templates'',
     properties =
        [],
     required = []\<rparr>,
    \<lparr>name = ''list_board_templates'',
     description = ''List available board templates. Use templateId when creating a new board.'',
     properties =
        [],
     required = []\<rparr>,
    \<lparr>name = ''list_activities'',
     description = ''Get item change history on a board (audit log)'',
     properties =
        [(''boardId'', SString),
         (''startDate'', SString),
         (''endDate'', SString),
         (''offset'', SNumber),
         (''limit'', SNumber)],
     required = [''boardId'', ''startDate'', ''endDate'']\<rparr>,
    \<lparr>name = ''list_system_logs'',
     description = ''List system logs by date range with paging'',
     properties =
        [(''fromDate'', SString),
         (''toDate'', SString),
         (''skip'', SNumber),
         (''take'', SNumber)],
     required = [''fromDate'', ''toDate'']\<rparr>]"

section \<open>The tool handlers\<close>

text \<open>
  The argument record of a call is optional in the protocol. Reading a property of a
  missing record throws; \<open>reading args p k\<close> is a handler whose first access to the
  record is \<open>args.p\<close> and which continues as \<open>k\<close> with the record.
\<close>

definition cannot_read :: "string \<Rightarrow> string \<Rightarrow> error" where
  "cannot_read what p =
     TypeError (''Cannot read properties of '' @ what @ '' (reading '' @ [CHR 0x27] @ p
                @ [CHR 0x27] @ '')'')"

definition reading :: "(string \<times> json) list option \<Rightarrow> string \<Rightarrow>
    ((string \<times> json) list \<Rightarrow> json io) \<Rightarrow> json io" where
  "reading args p k =
     (case args of
        None \<Rightarrow> ([], Inl (cannot_read ''undefined'' p))
      | Some a \<Rightarrow> k a)"

subsection \<open>\<open>get_board\<close>\<close>

text \<open>
  \<open>a === b\<close>. Arrays and objects are equal only to themselves, and a value of the
  response is never the same object as a value of the arguments.
\<close>

fun strict_eq :: "json \<Rightarrow> json \<Rightarrow> bool" where
  "strict_eq JUndefined JUndefined = True"
| "strict_eq JNull JNull = True"
| "strict_eq (JBool a) (JBool b) = (a = b)"
| "strict_eq (JNum a) (JNum b) = (a = b)"
| "strict_eq (JStr a) (JStr b) = (a = b)"
| "strict_eq _ _ = False"

text \<open>\<open>b.id\<close>: throws on \<open>null\<close> and \<open>undefined\<close>, reads the property of an object.\<close>

fun prop_id :: "json \<Rightarrow> error + json" where
  "prop_id JUndefined = Inl (cannot_read ''undefined'' ''id'')"
| "prop_id JNull = Inl (cannot_read ''null'' ''id'')"
| "prop_id (JObj kvs) = Inr (get kvs ''id'')"
| "prop_id _ = Inr JUndefined"

text \<open>\<open>bs.find((b) => b.id === v)\<close> on the elements of an array.\<close>

fun find_by_id :: "json list \<Rightarrow> json \<Rightarrow> error + json" where
  "find_by_id [] v = Inr JUndefined"
| "find_by_id (b # bs) v =
     (case prop_id b of
        Inl err \<Rightarrow> Inl err
      | Inr i \<Rightarrow> if strict_eq i v then Inr b else find_by_id bs v)"

text \<open>\<open>boards.find(...)\<close> on whatever the backend answered.\<close>

fun boards_find :: "json \<Rightarrow> json \<Rightarrow> error + json" where
  "boards_find (JArr bs) v = find_by_id bs v"
| "boards_find JUndefined v = Inl (cannot_read ''undefined'' ''find'')"
| "boards_find JNull v = Inl (cannot_read ''null'' ''find'')"
| "boards_find _ v = Inl (TypeError ''boards.find is not a function'')"

definition get_board :: "env \<Rightarrow> (string \<times> json) list \<Rightarrow> json io" where
  "get_board e args =
     (case apiRequest e (''/workspaces/'' @ ToString (get args ''workspaceId'') @ ''/boards'')
             GET JUndefined of
        (sent, Inl err) \<Rightarrow> (sent, Inl err)
      | (sent, Inr boards) \<Rightarrow>
          (sent,
           case boards_find boards (get args ''boardId'') of
             Inl err \<Rightarrow> Inl err
           | Inr board \<Rightarrow>
               if \<not> truthy board
                 then Inl (Error (''Board '' @ ToString (get args ''boardId'')
                                  @ '' not found in workspace''))
               else Inr board))"

subsection \<open>\<open>list_items\<close>\<close>

text \<open>
  \<open>for (const x of v)\<close>: the elements of an array, the characters of a string; any
  other value is not iterable (\<open>None\<close>), and the loop throws. The loop over a string
  walks its bytes, which are its characters when the string is ASCII.
\<close>

fun iterate :: "json \<Rightarrow> json list option" where
  "iterate (JArr xs) = Some xs"
| "iterate (JStr s) = Some (map (\<lambda>c. JStr [c]) s)"
| "iterate _ = None"

text \<open>
  The three shapes of line in the handler:
  \<open>if (args.a) params.append(q, args.a)\<close>,
  \<open>if (args.a !== undefined) params.append(q, String(args.a))\<close> and
  \<open>if (args.a) for (const x of args.a) params.append(q, x)\<close>.
  Each gives the pairs it appends.
\<close>

definition append_if :: "(string \<times> json) list \<Rightarrow> string \<Rightarrow> string \<Rightarrow> (string \<times> string) list" where
  "append_if args a q = (if truthy (get args a) then [(q, ToString (get args a))] else [])"

definition append_if_defined ::
    "(string \<times> json) list \<Rightarrow> string \<Rightarrow> string \<Rightarrow> (string \<times> string) list" where
  "append_if_defined args a q =
     (if get args a \<noteq> JUndefined then [(q, ToString (get args a))] else [])"

definition append_each ::
    "(string \<times> json) list \<Rightarrow> string \<Rightarrow> string \<Rightarrow> error + (string \<times> string) list" where
  "append_each args a q =
     (if truthy (get args a)
        then (case iterate (get args a) of
                None \<Rightarrow> Inl (TypeError (''args.'' @ a @ '' is not iterable''))
              | Some xs \<Rightarrow> Inr (map (\<lambda>x. (q, ToString x)) xs))
      else Inr [])"

text \<open>
  The pairs appended by the lines before the loop over \<open>args.tags\<close>, and by the lines
  after the loop over \<open>args.customFields\<close>.
\<close>

definition params_before :: "(string \<times> json) list \<Rightarrow> (string \<times> string) list" where
  "params_before args =
     append_if args ''workspaceId'' ''WorkspaceId''
     @ append_if args ''boardId'' ''BoardId''
     @ append_if args ''statusId'' ''StatusId''
     @ append_if args ''rowId'' ''RowId''
     @ append_if args ''assignedUserId'' ''AssignedUserId''
     @ append_if args ''ownerId'' ''OwnerId''
     @ append_if args ''parentId'' ''ParentId''
     @ append_if_defined args ''completed'' ''Completed''"

definition params_after :: "(string \<times> json) list \<Rightarrow> (string \<times> string) list" where
  "params_after args =
     append_if args ''createdSince'' ''CreatedSince''
     @ append_if args ''modifiedSince'' ''ModifiedSince''
     @ append_if args ''completedSince'' ''CompletedSince''
     @ append_if_defined args ''includeChildItems'' ''IncludeChildItems''
     @ append_if_defined args ''skip'' ''Skip''
     @ append_if_defined args ''take'' ''Take''"

text \<open>
  The whole parameter list, or the error of a loop over a value that is not iterable.
  Nothing is sent before the loops, so the error leaves no trace.
\<close>

definition list_items_params :: "(string \<times> json) list \<Rightarrow> error + (string \<times> string) list" where
  "list_items_params args =
     (case append_each args ''tags'' ''Tags'' of
        Inl err \<Rightarrow> Inl err
      | Inr tags \<Rightarrow>
          (case append_each args ''customFields'' ''CustomFields'' of
             Inl err \<Rightarrow> Inl err
           | Inr cfs \<Rightarrow> Inr (params_before args @ tags @ cfs @ params_after args)))"

definition list_items :: "env \<Rightarrow> (string \<times> json) list \<Rightarrow> json io" where
  "list_items e args =
     (case list_items_params args of
        Inl err \<Rightarrow> ([], Inl err)
      | Inr params \<Rightarrow>
          (let query = params_toString params
           in apiRequest e (''/items'' @ (if query \<noteq> [] then ''?'' @ query else [])) GET
                JUndefined))"

text \<open>
  The filters of \<open>list_items\<close> by the test that guards them, each with the name of its
  query parameter: the string filters (appended when truthy), the filters appended
  whenever they are defined, and the array filters. \<open>capitalized\<close> turns the first
  letter of a name into its capital.
\<close>

definition string_filters :: "(string \<times> string) list" where
  "string_filters =
     [(''workspaceId'', ''WorkspaceId''),
      (''boardId'', ''BoardId''),
      (''statusId'', ''StatusId''),
      (''rowId'', ''RowId''),
      (''assignedUserId'', ''AssignedUserId''),
      (''ownerId'', ''OwnerId''),
      (''parentId'', ''ParentId''),
      (''createdSince'', ''CreatedSince''),
      (''modifiedSince'', ''ModifiedSince''),
      (''completedSince'', ''CompletedSince'')]"

definition defined_filters :: "(string \<times> string) list" where
  "defined_filters =
     [(''completed'', ''Completed''),
      (''includeChildItems'', ''IncludeChildItems''),
      (''skip'', ''Skip''),
      (''take'', ''Take'')]"

definition array_filters :: "(string \<times> string) list" where
  "array_filters = [(''tags'', ''Tags''), (''customFields'', ''CustomFields'')]"

definition capitalized :: "string \<Rightarrow> string" where
  "capitalized s =
     (case s of
        [] \<Rightarrow> []
      | c # cs \<Rightarrow>
          (case map_of (zip ''abcdefghijklmnopqrstuvwxyz'' ''ABCDEFGHIJKLMNOPQRSTUVWXYZ'') c of
             None \<Rightarrow> c
           | Some u \<Rightarrow> u) # cs)"

subsection \<open>\<open>create_item\<close> and \<open>update_item\<close>\<close>

definition create_item_body :: "(string \<times> json) list \<Rightarrow> json" where
  "create_item_body args = JObj
     [(''workspaceId'', get args ''workspaceId''),
      (''boardId'', get args ''boardId''),
      (''statusId'', get args ''statusId''),
      (''title'', get args ''title''),
      (''description'', get args ''description''),
      (''rowId'', get args ''rowId''),
      (''assignedUserId'', get args ''assigneeId''),
      (''startDate'', get args ''startDate''),
      (''dueDate'', get args ''dueDate''),
      (''color'', get args ''color''),
      (''tags'', or_else (get args ''tags'') (JArr [])),
      (''customFields'', or_else (get args ''customFields'') (JArr [])),
      (''blocking'', or_else (get args ''blocking'') (JArr [])),
      (''waiting'', or_else (get args ''waiting'') (JArr [])),
      (''milestone'', JBool False),
      (''isSuspended'', JBool False),
      (''suspendReason'', JStr [])]"

text \<open>\<open>obj[k] = v\<close>: replaces the value of an existing key, else adds the key last.\<close>

definition assign :: "(string \<times> json) list \<Rightarrow> string \<Rightarrow> json \<Rightarrow> (string \<times> json) list" where
  "assign obj k v =
     (if k \<in> set (map fst obj)
        then map (\<lambda>(k', v'). if k' = k then (k', v) else (k', v')) obj
      else obj @ [(k, v)])"

text \<open>
  A line \<open>if (args.a !== undefined) updateData.k = args.a\<close>, and the seventeen of them
  in \<open>update_item\<close>, in the order of the source.
\<close>

definition set_if_defined ::
    "(string \<times> json) list \<Rightarrow> (string \<times> json) list \<Rightarrow> string \<Rightarrow> string \<Rightarrow> (string \<times> json) list" where
  "set_if_defined args updateData a k =
     (if get args a \<noteq> JUndefined then assign updateData k (get args a) else updateData)"

definition updateData :: "(string \<times> json) list \<Rightarrow> (string \<times> json) list" where
  "updateData args =
     (let u = [];
          u = set_if_defined args u ''title'' ''title'';
          u = set_if_defined args u ''description'' ''description'';
          u = set_if_defined args u ''statusId'' ''statusId'';
          u = set_if_defined args u ''rowId'' ''rowId'';
          u = set_if_defined args u ''boardId'' ''boardId'';
          u = set_if_defined args u ''assigneeId'' ''userId'';
          u = set_if_defined args u ''startDate'' ''startDate'';
          u = set_if_defined args u ''dueDate'' ''dueDate'';
          u = set_if_defined args u ''color'' ''color'';
          u = set_if_defined args u ''tags'' ''tags'';
          u = set_if_defined args u ''customFields'' ''customFields'';
          u = set_if_defined args u ''blocking'' ''blocking'';
          u = set_if_defined args u ''waiting'' ''waiting'';
          u = set_if_defined args u ''archived'' ''archived'';
          u = set_if_defined args u ''milestone'' ''milestone'';
          u = set_if_defined args u ''progress'' ''progress'';
          u = set_if_defined args u ''parentId'' ''parentId''
      in u)"

definition update_item :: "env \<Rightarrow> (string \<times> json) list \<Rightarrow> json io" where
  "update_item e args =
     apiRequest e (''/items/'' @ ToString (get args ''itemId'')) PUT
       (JObj [(''data'', JObj (updateData args))])"

subsection \<open>\<open>upload_attachment\<close>\<close>

text \<open>
  The form has the fields \<open>ItemId\<close> and \<open>Name\<close> and the file part \<open>Content\<close>, whose
  file name is the third argument of \<open>append\<close>, converted to a string as the fields
  are.
\<close>

definition upload_options :: "env \<Rightarrow> (string \<times> json) list \<Rightarrow> string \<Rightarrow> request" where
  "upload_options e args binaryContent =
     \<lparr>url = BASE_URL e @ ''/attachments'',
      http_method = POST,
      headers = [(''Authorization'', API_KEY e)],
      body = Some (Form
        [(''ItemId'', Field (ToString (get args ''itemId''))),
         (''Name'', Field (ToString (get args ''name''))),
         (''Content'', File binaryContent (ToString (get args ''name'')))])\<rparr>"

definition upload_attachment :: "env \<Rightarrow> (string \<times> json) list \<Rightarrow> json io" where
  "upload_attachment e args =
     (case Buffer_from_base64 e (get args ''content'') of
        Inl err \<Rightarrow> ([], Inl err)
      | Inr binaryContent \<Rightarrow>
          ([upload_options e args binaryContent],
           case fetch e (upload_options e args binaryContent) of
             Inl err \<Rightarrow> Inl err
           | Inr r \<Rightarrow>
               if \<not> ok r
                 then Inl (Error (''Upload failed '' @ show_nat (status r) @ '': ''
                                  @ response_text r))
               else if response_text r \<noteq> [] then JSON_parse e (response_text r)
               else Inr (JObj [])))"

subsection \<open>The dispatcher\<close>

text \<open>
  \<open>handleToolCall(name, args)\<close>: the \<open>switch\<close> on the tool name, one branch per
  \<open>case\<close> in the order of the source, the \<open>default\<close> last.
\<close>

definition handleToolCall ::
    "env \<Rightarrow> string \<Rightarrow> (string \<times> json) list option \<Rightarrow> json io" where
  "handleToolCall e tool_name args =
    (if tool_name = ''list_workspaces'' then apiRequest e ''/workspaces'' GET JUndefined
     else if tool_name = ''get_workspace'' then
       reading args ''workspaceId'' (\<lambda>a.
         apiRequest e (''/workspaces/'' @ ToString (get a ''workspaceId'')) GET JUndefined)
     else if tool_name = ''create_workspace'' then
       reading args ''title'' (\<lambda>a.
         apiRequest e ''/workspaces'' POST (JObj
           [(''title'', get a ''title''),
            (''displayId'', get a ''displayId''),
            (''icon'', get a ''icon''),
            (''color'', get a ''color''),
            (''templateId'', get a ''templateId''),
            (''ownerId'', get a ''ownerId'')]))
     else if tool_name = ''add_workspace_member'' then
       reading args ''workspaceId'' (\<lambda>a.
         apiRequest e (''/workspaces/'' @ ToString (get a ''workspaceId'') @ ''/users/''
                       @ ToString (get a ''userId'')) PUT (JObj []))
     else if tool_name = ''list_boards'' then
       reading args ''workspaceId'' (\<lambda>a.
         apiRequest e (''/workspaces/'' @ ToString (get a ''workspaceId'') @ ''/boards'') GET
           JUndefined)
     else if tool_name = ''get_board'' then reading args ''workspaceId'' (get_board e)
     else if tool_name = ''create_board'' then
       reading args ''workspaceId'' (\<lambda>a.
         apiRequest e ''/boards'' POST (JObj
           [(''workspaceId'', get a ''workspaceId''),
            (''title'', get a ''title''),
            (''displayId'', get a ''displayId''),
            (''templateId'', get a ''templateId''),
            (''viewType'', get a ''viewType'')]))
     else if tool_name = ''list_rows'' then
       reading args ''boardId'' (\<lambda>a.
         apiRequest e (''/boards/'' @ ToString (get a ''boardId'') @ ''/rows'') GET JUndefined)
     else if tool_name = ''list_statuses'' then
       reading args ''boardId'' (\<lambda>a.
         apiRequest e (''/boards/'' @ ToString (get a ''boardId'') @ ''/statuses'') GET
           JUndefined)
     else if tool_name = ''create_row'' then
       reading args ''boardId'' (\<lambda>a.
         apiRequest e ''/rows'' POST (JObj
           [(''boardId'', get a ''boardId''),
            (''title'', get a ''title''),
            (''startDate'', get a ''startDate''),
            (''endDate'', get a ''endDate'')]))
     else if tool_name = ''list_items'' then reading args ''workspaceId'' (list_items e)
     else if tool_name = ''get_item'' then
       reading args ''itemId'' (\<lambda>a.
         apiRequest e (''/items/'' @ ToString (get a ''itemId'')) GET JUndefined)
     else if tool_name = ''create_item'' then
       reading args ''workspaceId'' (\<lambda>a.
         apiRequest e ''/items'' POST (create_item_body a))
     else if tool_name = ''update_item'' then reading args ''title'' (update_item e)
     else if tool_name = ''delete_item'' then
       reading args ''itemId'' (\<lambda>a.
         apiRequest e (''/items/'' @ ToString (get a ''itemId'')) DELETE JUndefined)
     else if tool_name = ''move_item'' then
       reading args ''itemId'' (\<lambda>a.
         apiRequest e (''/items/'' @ ToString (get a ''itemId'')) PUT (JObj
           [(''data'', JObj
              [(''boardId'', get a ''targetBoardId''),
               (''statusId'', get a ''targetStatusId''),
               (''rowId'', get a ''targetRowId'')])]))
     else if tool_name = ''archive_item'' then
       reading args ''itemId'' (\<lambda>a.
         apiRequest e (''/items/'' @ ToString (get a ''itemId'')) PUT (JObj
           [(''data'', JObj [(''archived'', nullish (get a ''archived'') (JBool True))])]))
     else if tool_name = ''list_attachments'' then
       reading args ''itemId'' (\<lambda>a.
         apiRequest e (''/items/'' @ ToString (get a ''itemId'') @ ''/attachments'') GET
           JUndefined)
     else if tool_name = ''get_attachment'' then
       reading args ''attachmentId'' (\<lambda>a.
         apiRequest e (''/attachments/'' @ ToString (get a ''attachmentId'')) GET JUndefined)
     else if tool_name = ''download_attachment'' then
       reading args ''attachmentId'' (\<lambda>a.
         apiRequest e (''/attachments/'' @ ToString (get a ''attachmentId'') @ ''/content'')
           GET JUndefined)
     else if tool_name = ''update_attachment'' then
       reading args ''attachmentId'' (\<lambda>a.
         apiRequest e (''/attachments/'' @ ToString (get a ''attachmentId'')) PUT
           (JObj [(''Name'', get a ''name'')]))
     else if tool_name = ''delete_attachment'' then
       reading args ''attachmentId'' (\<lambda>a.
         apiRequest e (''/attachments/'' @ ToString (get a ''attachmentId'')) DELETE
           JUndefined)
     else if tool_name = ''upload_attachment'' then
       reading args ''itemId'' (upload_attachment e)
     else if tool_name = ''list_users'' then apiRequest e ''/users'' GET JUndefined
     else if tool_name = ''get_time_logs'' then
       reading args ''workspaceId'' (\<lambda>a.
         apiRequest e ''/timelogs'' POST (JObj
           [(''workspaceId'', get a ''workspaceId''),
            (''startDate'', get a ''startDate''),
            (''endDate'', get a ''endDate''),
            (''boardIds'', get a ''boardIds''),
            (''rowIds'', get a ''rowIds''),
            (''userIds'', get a ''userIds''),
            (''tags'', get a ''tags'')]))
     else if tool_name = ''list_workspace_templates'' then
       apiRequest e ''/templates/workspace'' GET JUndefined
     else if tool_name = ''list_board_templates'' then
       apiRequest e ''/templates/board'' GET JUndefined
     else if tool_name = ''list_activities'' then
       reading args ''boardId'' (\<lambda>a.
         apiRequest e (''/boards/'' @ ToString (get a ''boardId'') @ ''/item-activities'') POST
           (JObj
             [(''startDate'', get a ''startDate''),
              (''endDate'', get a ''endDate''),
              (''offset'', nullish (get a ''offset'') (JNum 0)),
              (''limit'', nullish (get a ''limit'') (JNum 100))]))
     else if tool_name = ''list_system_logs'' then
       reading args ''fromDate'' (\<lambda>a.
         apiRequest e (''/logs?'' @ params_toString
             ([(''fromDate'', ToString (get a ''fromDate'')),
               (''toDate'', ToString (get a ''toDate''))]
              @ append_if_defined a ''skip'' ''skip''
              @ append_if_defined a ''take'' ''take'')) GET JUndefined)
     else ([], Inl (Error (''Unknown tool: '' @ tool_name))))"

section \<open>The protocol endpoint\<close>

text \<open>
  A content block \<open>{type: "text", text: t}\<close>, where \<open>t\<close> is \<open>None\<close> when
  \<open>JSON.stringify\<close> gave \<open>undefined\<close>; a result, whose \<open>isError\<close> key is present
  only in the error answer.
\<close>

datatype content_block = TextBlock "string option"

record call_result =
  content :: "content_block list"
  isError :: "bool option"

text \<open>The handler of \<open>CallToolRequestSchema\<close>: the requests sent and the answer returned.\<close>

definition call_tool ::
    "env \<Rightarrow> string \<Rightarrow> (string \<times> json) list option \<Rightarrow> request list \<times> call_result" where
  "call_tool e tool_name args =
     (case handleToolCall e tool_name args of
        (sent, Inr result) \<Rightarrow>
          (sent, \<lparr>content = [TextBlock (JSON_stringify result 2)], isError = None\<rparr>)
      | (sent, Inl err) \<Rightarrow>
          (sent, \<lparr>content = [TextBlock (Some (''Error: '' @ message err))],
                  isError = Some True\<rparr>))"

section \<open>Handlers that are one call of the client\<close>

text \<open>
  A handler result that is the result of one \<open>apiRequest\<close>, or an error thrown before
  anything was sent.
\<close>

definition one_call :: "env \<Rightarrow> json io \<Rightarrow> bool" where
  "one_call e x =
     ((\<exists>endpoint m b. x = apiRequest e endpoint m b) \<or> (\<exists>err. x = ([], Inl err)))"

section \<open>A test backend\<close>

text \<open>
  A backend that gives the same answer to every request, with a \<open>JSON.parse\<close> that
  knows three texts and a base64 decoder that knows one string.
\<close>

text \<open>A text in double quotes, for writing down expected JSON texts.\<close>

definition dq :: "string \<Rightarrow> string" where
  "dq s = CHR 0x22 # s @ [CHR 0x22]"

definition boards_doc :: json where
  "boards_doc = JArr [JObj [(''id'', JStr ''B1''), (''title'', JStr ''Main'')],
                      JObj [(''id'', JStr ''B2''), (''title'', JStr ''Side'')]]"

definition boards_text :: string where
  "boards_text =
     ''[{'' @ dq ''id'' @ '':'' @ dq ''B1'' @ '','' @ dq ''title'' @ '':'' @ dq ''Main'' @ ''},{''
     @ dq ''id'' @ '':'' @ dq ''B2'' @ '','' @ dq ''title'' @ '':'' @ dq ''Side'' @ ''}]''"

definition nl :: string where
  "nl = [CHR 0x0A]"

definition boards_pretty :: string where
  "boards_pretty =
     ''['' @ nl
     @ ''  {'' @ nl
     @ ''    '' @ dq ''id'' @ '': '' @ dq ''B1'' @ '','' @ nl
     @ ''    '' @ dq ''title'' @ '': '' @ dq ''Main'' @ nl
     @ ''  },'' @ nl
     @ ''  {'' @ nl
     @ ''    '' @ dq ''id'' @ '': '' @ dq ''B2'' @ '','' @ nl
     @ ''    '' @ dq ''title'' @ '': '' @ dq ''Side'' @ nl
     @ ''  }'' @ nl
     @ '']''"

definition board2_pretty :: string where
  "board2_pretty =
     ''{'' @ nl
     @ ''  '' @ dq ''id'' @ '': '' @ dq ''B2'' @ '','' @ nl
     @ ''  '' @ dq ''title'' @ '': '' @ dq ''Side'' @ nl
     @ ''}''"

definition mock_parse :: "string \<Rightarrow> error + json" where
  "mock_parse t =
     (if t = ''[]'' then Inr (JArr [])
      else if t = ''{}'' then Inr (JObj [])
      else if t = boards_text then Inr boards_doc
      else Inl (SyntaxError ''Unexpected token''))"

definition mock_decode :: "json \<Rightarrow> error + string" where
  "mock_decode v =
     (case v of
        JStr s \<Rightarrow> Inr (if s = ''AQI='' then [CHR 0x01, CHR 0x02] else [])
      | _ \<Rightarrow> Inl (TypeError ''The first argument must be of type string''))"

definition mock_env :: "nat \<Rightarrow> string \<Rightarrow> env" where
  "mock_env st txt =
     \<lparr>API_KEY = ''secret'',
      BASE_URL = ''https://api.test/api/v1'',
      fetch = (\<lambda>req. Inr \<lparr>status = st, response_text = txt\<rparr>),
      JSON_parse = mock_parse,
      Buffer_from_base64 = mock_decode\<rparr>"

definition item_args :: "(string \<times> json) list" where
  "item_args =
     [(''workspaceId'', JStr ''W1''), (''boardId'', JStr ''B1''), (''statusId'', JStr ''S1''),
      (''title'', JStr ''T''), (''assigneeId'', JStr ''U1''), (''tags'', JArr [JStr ''x''])]"

definition item_text :: string where
  "item_text =
     ''{'' @ dq ''workspaceId'' @ '':'' @ dq ''W1'' @ '','' @ dq ''boardId'' @ '':'' @ dq ''B1''
     @ '','' @ dq ''statusId'' @ '':'' @ dq ''S1'' @ '','' @ dq ''title'' @ '':'' @ dq ''T''
     @ '','' @ dq ''assignedUserId'' @ '':'' @ dq ''U1''
     @ '','' @ dq ''tags'' @ '':['' @ dq ''x'' @ ''],'' @ dq ''customFields'' @ '':[],''
     @ dq ''blocking'' @ '':[],'' @ dq ''waiting'' @ '':[],'' @ dq ''milestone'' @ '':false,''
     @ dq ''isSuspended'' @ '':false,'' @ dq ''suspendReason'' @ '':'' @ dq [] @ ''}''"

text \<open>A \<open>create_item\<close> call that supplies \<open>tags\<close> as \<open>null\<close>, and the body it sends.\<close>

definition null_tags_args :: "(string \<times> json) list" where
  "null_tags_args =
     [(''workspaceId'', JStr ''W1''), (''boardId'', JStr ''B1''), (''statusId'', JStr ''S1''),
      (''title'', JStr ''T''), (''tags'', JNull)]"

definition null_tags_text :: string where
  "null_tags_text =
     ''{'' @ dq ''workspaceId'' @ '':'' @ dq ''W1'' @ '','' @ dq ''boardId'' @ '':'' @ dq ''B1''
     @ '','' @ dq ''statusId'' @ '':'' @ dq ''S1'' @ '','' @ dq ''title'' @ '':'' @ dq ''T''
     @ '','' @ dq ''tags'' @ '':[],'' @ dq ''customFields'' @ '':[],''
     @ dq ''blocking'' @ '':[],'' @ dq ''waiting'' @ '':[],'' @ dq ''milestone'' @ '':false,''
     @ dq ''isSuspended'' @ '':false,'' @ dq ''suspendReason'' @ '':'' @ dq [] @ ''}''"

text \<open>
  An \<open>update_item\<close> call that supplies every update field, in another order than the
  handler reads them, and the body it sends.
\<close>

definition update_args :: "(string \<times> json) list" where
  "update_args =
     [(''parentId'', JStr ''P1''),
      (''progress'', JNum 50),
      (''milestone'', JBool True),
      (''archived'', JBool False),
      (''waiting'', JArr []),
      (''blocking'', JArr []),
      (''customFields'', JArr [JObj [(''name'', JStr ''n''), (''value'', JStr ''v'')]]),
      (''tags'', JArr [JStr ''x'']),
      (''color'', JNum 3),
      (''dueDate'', JStr ''2024-02-01''),
      (''startDate'', JStr ''2024-01-01''),
      (''assigneeId'', JStr ''U1''),
      (''boardId'', JStr ''B1''),
      (''rowId'', JStr ''R1''),
      (''statusId'', JStr ''S1''),
      (''description'', JStr ''D''),
      (''title'', JStr ''T''),
      (''itemId'', JStr ''I1'')]"

definition update_text :: string where
  "update_text =
     ''{'' @ dq ''data'' @ '':{''
     @ dq ''title'' @ '':'' @ dq ''T'' @ '',''
     @ dq ''description'' @ '':'' @ dq ''D'' @ '',''
     @ dq ''statusId'' @ '':'' @ dq ''S1'' @ '',''
     @ dq ''rowId'' @ '':'' @ dq ''R1'' @ '',''
     @ dq ''boardId'' @ '':'' @ dq ''B1'' @ '',''
     @ dq ''userId'' @ '':'' @ dq ''U1'' @ '',''
     @ dq ''startDate'' @ '':'' @ dq ''2024-01-01'' @ '',''
     @ dq ''dueDate'' @ '':'' @ dq ''2024-02-01'' @ '',''
     @ dq ''color'' @ '':3,''
     @ dq ''tags'' @ '':['' @ dq ''x'' @ ''],''
     @ dq ''customFields'' @ '':[{'' @ dq ''name'' @ '':'' @ dq ''n'' @ '','' @ dq ''value'' @ '':''
         @ dq ''v'' @ ''}],''
     @ dq ''blocking'' @ '':[],''
     @ dq ''waiting'' @ '':[],''
     @ dq ''archived'' @ '':false,''
     @ dq ''milestone'' @ '':true,''
     @ dq ''progress'' @ '':50,''
     @ dq ''parentId'' @ '':'' @ dq ''P1''
     @ ''}}''"

section \<open>Basic facts\<close>

lemma apiRequest_sent: "fst (apiRequest e endpoint m b) = [api_options e endpoint m b]"
  by (simp add: apiRequest_def)

lemma ser_defined: "v \<noteq> JUndefined \<Longrightarrow> \<exists>t. ser gap ind v = Some t"
  by (cases v) (simp_all add: Let_def)

lemma JSON_stringify_defined: "v \<noteq> JUndefined \<Longrightarrow> \<exists>t. JSON_stringify v space = Some t"
  by (simp add: JSON_stringify_def ser_defined)

lemma show_int_examples:
  "show_int 0 = ''0''"
  "show_int (- 42) = ''-42''"
  "show_int 999999999999999900000 = ''999999999999999900000''"
  "show_int 1000000000000000000000 = ''1e+21''"
  "show_int (- 1180591620717411300000) = ''-1.1805916207174113e+21''"
  by (simp_all add: show_int_def exponent_text_def strip_zeros_def show_nat.simps)

lemma truthy_defined: "truthy v \<Longrightarrow> v \<noteq> JUndefined"
  by (cases v) simp_all

lemma apiRequest_not_ok:
  "fetch e (api_options e endpoint m b) = Inr r \<Longrightarrow> \<not> ok r \<Longrightarrow>
     snd (apiRequest e endpoint m b) =
       Inl (Error (''API Error '' @ show_nat (status r) @ '': '' @ response_text r))"
  by (simp add: apiRequest_def)

lemma apiRequest_ok:
  "fetch e (api_options e endpoint m b) = Inr r \<Longrightarrow> ok r \<Longrightarrow> response_text r \<noteq> [] \<Longrightarrow>
     snd (apiRequest e endpoint m b) = JSON_parse e (response_text r)"
  by (simp add: apiRequest_def)

text \<open>
  Every branch of the dispatcher but two is one call of \<open>apiRequest\<close>, or throws before
  any request is sent.
\<close>

lemma one_call_apiRequest: "one_call e (apiRequest e endpoint m b)"
  unfolding one_call_def by blast

lemma one_call_thrown: "one_call e ([], Inl err)"
  unfolding one_call_def by blast

lemma one_call_reading: "(\<And>a. one_call e (k a)) \<Longrightarrow> one_call e (reading args p k)"
  by (cases args) (simp_all add: reading_def one_call_thrown)

lemma one_call_list_items: "one_call e (list_items e a)"
  by (cases "list_items_params a")
     (simp_all add: list_items_def Let_def one_call_thrown one_call_apiRequest)

lemma one_call_update_item: "one_call e (update_item e a)"
  by (simp add: update_item_def one_call_apiRequest)

lemma handleToolCall_one_call:
  assumes "n \<noteq> ''get_board''" "n \<noteq> ''upload_attachment''"
  shows "one_call e (handleToolCall e n args)"
  unfolding handleToolCall_def using assms
  by (simp add: one_call_apiRequest one_call_thrown one_call_reading one_call_list_items
      one_call_update_item)

lemma handleToolCall_get_board:
  "handleToolCall e ''get_board'' (Some a) = get_board e a"
  by (simp add: handleToolCall_def reading_def)

lemma handleToolCall_no_args: "one_call e (handleToolCall e n None)"
  unfolding handleToolCall_def
  by (simp add: reading_def one_call_apiRequest one_call_thrown)

lemma get_board_propagates:
  "snd (apiRequest e (''/workspaces/'' @ ToString (get a ''workspaceId'') @ ''/boards'') GET
          JUndefined) = Inl err \<Longrightarrow>
   snd (get_board e a) = Inl err"
  by (cases "apiRequest e (''/workspaces/'' @ ToString (get a ''workspaceId'') @ ''/boards'')
               GET JUndefined")
     (simp add: get_board_def)

lemma get_board_sent:
  "fst (get_board e a) =
     [api_options e (''/workspaces/'' @ ToString (get a ''workspaceId'') @ ''/boards'') GET
        JUndefined]"
  by (simp add: get_board_def apiRequest_def split: sum.splits)

lemma upload_attachment_not_ok:
  "fst (upload_attachment e a) = [req] \<Longrightarrow> fetch e req = Inr r \<Longrightarrow> \<not> ok r \<Longrightarrow>
     snd (upload_attachment e a) =
       Inl (Error (''Upload failed '' @ show_nat (status r) @ '': '' @ response_text r))"
  by (auto simp add: upload_attachment_def split: sum.splits)

lemma unknown_tool:
  "n \<notin> set (map name tools) \<Longrightarrow>
     handleToolCall e n args = ([], Inl (Error (''Unknown tool: '' @ n)))"
  by (simp add: tools_def handleToolCall_def)

section \<open>The catalog\<close>

text \<open>
  C8 (as amended). The catalog has exactly 29 descriptors, and no two of them share a
  name.
\<close>

theorem tools_count_and_distinct_names: "length tools = 29 \<and> distinct (map name tools)"
  by (simp add: tools_def)

text \<open>C8 as stated asks for 30 descriptors; the list has one fewer.\<close>

theorem tools_count_is_not_30: "length tools \<noteq> 30"
  by (simp add: tools_def)

section \<open>The API client's request\<close>

text \<open>
  C7 (as amended). A call of \<open>apiRequest\<close> sends exactly one request. Its URL is the base
  URL followed by the endpoint, its \<open>Authorization\<close> header is the API key as it is, and
  its \<open>Content-Type\<close> header is \<open>application/json\<close> on every request, with or without
  a body. A body is sent exactly when the method is POST or PUT and the body given is
  truthy, and it is then the JSON text of that body; GET and DELETE requests carry none.
\<close>

theorem apiRequest_request:
  "\<exists>req. fst (apiRequest e endpoint m b) = [req]
     \<and> url req = BASE_URL e @ endpoint
     \<and> http_method req = m
     \<and> map_of (headers req) ''Authorization'' = Some (API_KEY e)
     \<and> map_of (headers req) ''Content-Type'' = Some ''application/json''
     \<and> (m = GET \<or> m = DELETE \<longrightarrow> body req = None)
     \<and> (truthy b \<and> (m = POST \<or> m = PUT) \<longrightarrow>
          (\<exists>t. JSON_stringify b 0 = Some t \<and> body req = Some (Text t)))
     \<and> (body req \<noteq> None \<longrightarrow> truthy b \<and> (m = POST \<or> m = PUT))"
proof (intro exI conjI)
  let ?req = "api_options e endpoint m b"
  show "fst (apiRequest e endpoint m b) = [?req]"
    by (rule apiRequest_sent)
  show "url ?req = BASE_URL e @ endpoint"
    by (simp add: api_options_def)
  show "http_method ?req = m"
    by (simp add: api_options_def)
  show "map_of (headers ?req) ''Authorization'' = Some (API_KEY e)"
    by (simp add: api_options_def)
  show "map_of (headers ?req) ''Content-Type'' = Some ''application/json''"
    by (simp add: api_options_def)
  show "m = GET \<or> m = DELETE \<longrightarrow> body ?req = None"
    by (cases m) (simp_all add: api_options_def)
  show "truthy b \<and> (m = POST \<or> m = PUT) \<longrightarrow>
      (\<exists>t. JSON_stringify b 0 = Some t \<and> body ?req = Some (Text t))"
  proof
    assume h: "truthy b \<and> (m = POST \<or> m = PUT)"
    then have "b \<noteq> JUndefined" by (simp add: truthy_defined)
    then obtain t where t: "JSON_stringify b 0 = Some t"
      using JSON_stringify_defined by blast
    from h have "body ?req = map_option Text (JSON_stringify b 0)"
      by (simp add: api_options_def)
    with t show "\<exists>t. JSON_stringify b 0 = Some t \<and> body ?req = Some (Text t)"
      by simp
  qed
  show "body ?req \<noteq> None \<longrightarrow> truthy b \<and> (m = POST \<or> m = PUT)"
    by (cases "truthy b \<and> (m = POST \<or> m = PUT)") (auto simp add: api_options_def)
qed

theorem apiRequest_request_witness:
  "truthy (JObj [(''title'', JStr ''T'')])
   \<and> fst (apiRequest (mock_env 200 ''{}'') ''/rows'' POST (JObj [(''title'', JStr ''T'')])) =
       [\<lparr>url = ''https://api.test/api/v1/rows'', http_method = POST,
         headers = [(''Authorization'', ''secret''), (''Content-Type'', ''application/json'')],
         body = Some (Text (''{'' @ Quote ''title'' @ '':'' @ Quote ''T'' @ ''}''))\<rparr>]"
  using apiRequest_request [of "mock_env 200 ''{}''" "''/rows''" POST "JObj [(''title'', JStr ''T'')]"]
  by (simp add: apiRequest_def api_options_def mock_env_def JSON_stringify_def)

text \<open>
  C7 as stated attaches \<open>Content-Type\<close> only when a body is present; a GET request,
  which has no body, carries the header all the same.
\<close>

theorem apiRequest_get_has_content_type:
  "fst (apiRequest (mock_env 200 ''[]'') ''/workspaces'' GET JUndefined) =
     [\<lparr>url = ''https://api.test/api/v1/workspaces'', http_method = GET,
       headers = [(''Authorization'', ''secret''), (''Content-Type'', ''application/json'')],
       body = None\<rparr>]"
  by (simp add: apiRequest_def api_options_def mock_env_def)

section \<open>Backend errors\<close>

text \<open>
  C6 (as amended). When the backend answers the request of a tool call with a status
  outside 200..299, the call fails with an error whose message is a prefix, the status
  in decimal, a colon and the raw text of the answer. The prefix is \<open>API Error\<close> for
  every request made through \<open>apiRequest\<close> and \<open>Upload failed\<close> for the multipart
  request of \<open>upload_attachment\<close>.
\<close>

theorem backend_error_message:
  assumes "fst (handleToolCall e n args) = [req]" "fetch e req = Inr r" "\<not> ok r"
  shows "snd (handleToolCall e n args) =
     Inl (Error ((if n = ''upload_attachment'' then ''Upload failed '' else ''API Error '')
                 @ show_nat (status r) @ '': '' @ response_text r))"
proof -
  let ?msg = "''API Error '' @ show_nat (status r) @ '': '' @ response_text r"
  have api: "snd (handleToolCall e n args) = Inl (Error ?msg)"
    if "one_call e (handleToolCall e n args)"
  proof -
    from that assms(1) obtain endpoint m b
      where h: "handleToolCall e n args = apiRequest e endpoint m b"
      unfolding one_call_def by auto
    with assms(1) have "req = api_options e endpoint m b" by (simp add: apiRequest_sent)
    with assms(2,3) h show ?thesis by (simp add: apiRequest_not_ok)
  qed
  consider (board) "n = ''get_board''" | (upload) "n = ''upload_attachment''"
    | (other) "n \<noteq> ''get_board''" "n \<noteq> ''upload_attachment''" by blast
  then show ?thesis
  proof cases
    case board
    show ?thesis
    proof (cases args)
      case None
      have "one_call e (handleToolCall e n args)"
        unfolding None by (rule handleToolCall_no_args)
      from api [OF this] board show ?thesis by simp
    next
      case (Some a)
      let ?ep = "''/workspaces/'' @ ToString (get a ''workspaceId'') @ ''/boards''"
      from Some board have h: "handleToolCall e n args = get_board e a"
        by (simp add: handleToolCall_get_board)
      with assms(1) get_board_sent [of e a] have "req = api_options e ?ep GET JUndefined"
        by simp
      with assms(2,3) have "snd (apiRequest e ?ep GET JUndefined) = Inl (Error ?msg)"
        by (simp add: apiRequest_not_ok)
      then have "snd (get_board e a) = Inl (Error ?msg)"
        by (rule get_board_propagates)
      with h board show ?thesis by simp
    qed
  next
    case upload
    show ?thesis
    proof (cases args)
      case None
      with assms(1) upload show ?thesis by (simp add: handleToolCall_def reading_def)
    next
      case (Some a)
      with upload have "handleToolCall e n args = upload_attachment e a"
        by (simp add: handleToolCall_def reading_def)
      with assms upload_attachment_not_ok [of e a req r] upload show ?thesis by simp
    qed
  next
    case other
    with api handleToolCall_one_call [of n e args] show ?thesis by simp
  qed
qed

theorem backend_error_message_witness:
  "fst (handleToolCall (mock_env 404 ''Not found'') ''get_item'' (Some [(''itemId'', JStr ''I1'')])) =
     [api_options (mock_env 404 ''Not found'') ''/items/I1'' GET JUndefined]
   \<and> fetch (mock_env 404 ''Not found'')
        (api_options (mock_env 404 ''Not found'') ''/items/I1'' GET JUndefined) =
       Inr \<lparr>status = 404, response_text = ''Not found''\<rparr>
   \<and> \<not> ok \<lparr>status = 404, response_text = ''Not found''\<rparr>
   \<and> snd (handleToolCall (mock_env 404 ''Not found'') ''get_item'' (Some [(''itemId'', JStr ''I1'')])) =
       Inl (Error ''API Error 404: Not found'')"
proof -
  let ?e = "mock_env 404 ''Not found''"
  let ?r = "\<lparr>status = 404, response_text = ''Not found''\<rparr>"
  have sent: "fst (handleToolCall ?e ''get_item'' (Some [(''itemId'', JStr ''I1'')])) =
      [api_options ?e ''/items/I1'' GET JUndefined]"
    by (simp add: handleToolCall_def reading_def get_def apiRequest_def)
  have answer: "fetch ?e (api_options ?e ''/items/I1'' GET JUndefined) = Inr ?r"
    by (simp add: mock_env_def)
  have bad: "\<not> ok ?r"
    by (simp add: ok_def)
  from backend_error_message [OF sent answer bad] sent answer bad show ?thesis
    by (simp add: show_nat.simps)
qed

text \<open>
  C6 as stated promises \<open>API Error 404\<close> for any endpoint; the upload endpoint answers
  with another prefix.
\<close>

theorem upload_error_is_not_api_error:
  "snd (call_tool (mock_env 404 ''Not found'') ''upload_attachment''
          (Some [(''itemId'', JStr ''I1''), (''name'', JStr ''a.bin''),
                 (''content'', JStr ''AQI='')])) =
     \<lparr>content = [TextBlock (Some ''Error: Upload failed 404: Not found'')],
      isError = Some True\<rparr>
   \<and> \<not> sublist ''API Error 404'' ''Error: Upload failed 404: Not found''"
  by (simp add: call_tool_def handleToolCall_def reading_def upload_attachment_def upload_options_def
      mock_env_def mock_decode_def get_def ok_def show_nat.simps sublist_Cons_right)

section \<open>Failures at the endpoint\<close>

text \<open>
  C3. The handler of a tool call always returns an answer with one text block. When the
  dispatcher throws, for whatever reason, the answer is flagged as an error and its text
  is \<open>Error: \<close> followed by the message thrown. A name that is not in the catalog sends
  no request and is answered with \<open>Error: Unknown tool: \<close> and the name.
\<close>

theorem call_tool_failure:
  "length (content (snd (call_tool e n args))) = 1
   \<and> (snd (handleToolCall e n args) = Inl err \<longrightarrow>
        snd (call_tool e n args) =
          \<lparr>content = [TextBlock (Some (''Error: '' @ message err))], isError = Some True\<rparr>)
   \<and> (n \<notin> set (map name tools) \<longrightarrow>
        call_tool e n args =
          ([], \<lparr>content = [TextBlock (Some (''Error: Unknown tool: '' @ n))],
                isError = Some True\<rparr>))"
proof (intro conjI impI)
  show "length (content (snd (call_tool e n args))) = 1"
    by (simp add: call_tool_def split: prod.splits sum.splits)
next
  assume "snd (handleToolCall e n args) = Inl err"
  then show "snd (call_tool e n args) =
      \<lparr>content = [TextBlock (Some (''Error: '' @ message err))], isError = Some True\<rparr>"
    by (cases "handleToolCall e n args") (simp add: call_tool_def)
next
  assume "n \<notin> set (map name tools)"
  then have "handleToolCall e n args = ([], Inl (Error (''Unknown tool: '' @ n)))"
    by (rule unknown_tool)
  then show "call_tool e n args =
      ([], \<lparr>content = [TextBlock (Some (''Error: Unknown tool: '' @ n))],
            isError = Some True\<rparr>)"
    by (simp add: call_tool_def)
qed

theorem call_tool_failure_witness:
  "''unknown_tool_xyz'' \<notin> set (map name tools)
   \<and> snd (handleToolCall (mock_env 200 ''{}'') ''unknown_tool_xyz'' (Some [])) =
       Inl (Error ''Unknown tool: unknown_tool_xyz'')
   \<and> call_tool (mock_env 200 ''{}'') ''unknown_tool_xyz'' (Some []) =
       ([], \<lparr>content = [TextBlock (Some ''Error: Unknown tool: unknown_tool_xyz'')],
             isError = Some True\<rparr>)
   \<and> sublist ''Unknown tool: unknown_tool_xyz'' ''Error: Unknown tool: unknown_tool_xyz''"
proof -
  have absent: "''unknown_tool_xyz'' \<notin> set (map name tools)"
    by (simp add: tools_def)
  have thrown: "snd (handleToolCall (mock_env 200 ''{}'') ''unknown_tool_xyz'' (Some [])) =
      Inl (Error ''Unknown tool: unknown_tool_xyz'')"
    by (simp add: handleToolCall_def)
  from call_tool_failure [of "mock_env 200 ''{}''" "''unknown_tool_xyz''" "Some []"
      "Error ''Unknown tool: unknown_tool_xyz''"] absent thrown
  show ?thesis
    by (simp add: sublist_Cons_right)
qed

section \<open>The body of \<open>create_item\<close>\<close>

lemma create_item_sent:
  "fst (handleToolCall e ''create_item'' (Some args)) =
     [api_options e ''/items'' POST (create_item_body args)]"
  by (simp add: handleToolCall_def reading_def apiRequest_sent)

lemma or_else_defined: "d \<noteq> JUndefined \<Longrightarrow> or_else v d \<noteq> JUndefined"
  by (auto simp add: or_else_def dest: truthy_defined)

text \<open>
  C1 (as amended). A \<open>create_item\<close> call sends one POST to \<open>/items\<close> whose body is the
  JSON text of an object in which \<open>assignedUserId\<close> holds the \<open>assigneeId\<close> argument and
  no key is called \<open>assigneeId\<close>. Each of \<open>tags\<close>, \<open>customFields\<close>, \<open>blocking\<close> and
  \<open>waiting\<close> is always there with a value that is not \<open>undefined\<close>: the caller's
  value when that is truthy, as every array is, and the empty array otherwise, that is
  when the argument is absent or is \<open>null\<close>, \<open>false\<close>, \<open>0\<close> or the empty string.
  \<open>milestone\<close> and \<open>isSuspended\<close> are \<open>false\<close> and \<open>suspendReason\<close> is the empty
  string, whatever the arguments. A call without an argument record sends nothing.
\<close>

theorem create_item_request:
  "\<exists>kvs t.
     fst (handleToolCall e ''create_item'' (Some args)) =
       [\<lparr>url = BASE_URL e @ ''/items'', http_method = POST,
         headers = [(''Authorization'', API_KEY e), (''Content-Type'', ''application/json'')],
         body = Some (Text t)\<rparr>]
     \<and> JSON_stringify (JObj kvs) 0 = Some t
     \<and> distinct (map fst kvs)
     \<and> map_of kvs ''assignedUserId'' = Some (get args ''assigneeId'')
     \<and> map_of kvs ''assigneeId'' = None
     \<and> (\<forall>k \<in> {''tags'', ''customFields'', ''blocking'', ''waiting''}.
           (\<exists>v. map_of kvs k = Some v \<and> v \<noteq> JUndefined
              \<and> (truthy (get args k) \<longrightarrow> v = get args k)
              \<and> (\<not> truthy (get args k) \<longrightarrow> v = JArr []))
           \<and> (\<forall>xs. get args k = JArr xs \<longrightarrow> map_of kvs k = Some (JArr xs))
           \<and> (get args k = JUndefined \<longrightarrow> map_of kvs k = Some (JArr [])))
     \<and> map_of kvs ''milestone'' = Some (JBool False)
     \<and> map_of kvs ''isSuspended'' = Some (JBool False)
     \<and> map_of kvs ''suspendReason'' = Some (JStr [])
     \<and> fst (handleToolCall e ''create_item'' None) = []"
proof -
  have no_record: "fst (handleToolCall e ''create_item'' None) = []"
    by (simp add: handleToolCall_def reading_def)
  obtain kvs where kvs: "create_item_body args = JObj kvs"
    by (simp add: create_item_body_def)
  then obtain t where t: "JSON_stringify (JObj kvs) 0 = Some t"
    using JSON_stringify_defined [of "JObj kvs" 0] by auto
  have sent: "fst (handleToolCall e ''create_item'' (Some args)) =
       [\<lparr>url = BASE_URL e @ ''/items'', http_method = POST,
         headers = [(''Authorization'', API_KEY e), (''Content-Type'', ''application/json'')],
         body = Some (Text t)\<rparr>]"
    using kvs t by (simp add: create_item_sent api_options_def)
  from kvs have fields: "distinct (map fst kvs)"
     "map_of kvs ''assignedUserId'' = Some (get args ''assigneeId'')"
     "map_of kvs ''assigneeId'' = None"
     "map_of kvs ''milestone'' = Some (JBool False)"
     "map_of kvs ''isSuspended'' = Some (JBool False)"
     "map_of kvs ''suspendReason'' = Some (JStr [])"
    by (auto simp add: create_item_body_def)
  from kvs have value_of: "map_of kvs k = Some (or_else (get args k) (JArr []))"
    if "k \<in> {''tags'', ''customFields'', ''blocking'', ''waiting''}" for k
    using that by (auto simp add: create_item_body_def)
  have arrays: "(\<exists>v. map_of kvs k = Some v \<and> v \<noteq> JUndefined
              \<and> (truthy (get args k) \<longrightarrow> v = get args k)
              \<and> (\<not> truthy (get args k) \<longrightarrow> v = JArr []))
           \<and> (\<forall>xs. get args k = JArr xs \<longrightarrow> map_of kvs k = Some (JArr xs))
           \<and> (get args k = JUndefined \<longrightarrow> map_of kvs k = Some (JArr []))"
    if "k \<in> {''tags'', ''customFields'', ''blocking'', ''waiting''}" for k
  proof (intro conjI allI impI)
    have "or_else (get args k) (JArr []) \<noteq> JUndefined"
      by (rule or_else_defined) simp
    with value_of [OF that]
    show "\<exists>v. map_of kvs k = Some v \<and> v \<noteq> JUndefined
              \<and> (truthy (get args k) \<longrightarrow> v = get args k)
              \<and> (\<not> truthy (get args k) \<longrightarrow> v = JArr [])"
      by (simp add: or_else_def)
  next
    fix xs assume "get args k = JArr xs"
    with value_of [OF that] show "map_of kvs k = Some (JArr xs)"
      by (simp add: or_else_def)
  next
    assume "get args k = JUndefined"
    with value_of [OF that] show "map_of kvs k = Some (JArr [])"
      by (simp add: or_else_def)
  qed
  from sent t fields arrays no_record show ?thesis by blast
qed

lemma truthy_create_item_body: "truthy (create_item_body args)"
  by (simp add: create_item_body_def)

lemma create_item_text:
  "JSON_stringify (create_item_body item_args) 0 = Some item_text"
  by (simp add: JSON_stringify_def create_item_body_def item_args_def item_text_def get_def
      or_else_def Quote_def quote_char_def dq_def)

theorem create_item_request_witness:
  "get item_args ''assigneeId'' = JStr ''U1''
   \<and> get item_args ''tags'' = JArr [JStr ''x'']
   \<and> truthy (get item_args ''tags'')
   \<and> get item_args ''customFields'' = JUndefined
   \<and> \<not> truthy (get item_args ''customFields'')
   \<and> fst (handleToolCall (mock_env 200 ''{}'') ''create_item'' (Some item_args)) =
       [\<lparr>url = ''https://api.test/api/v1/items'', http_method = POST,
         headers = [(''Authorization'', ''secret''), (''Content-Type'', ''application/json'')],
         body = Some (Text item_text)\<rparr>]"
proof -
  from create_item_request [of "mock_env 200 ''{}''" item_args]
  obtain t where sent: "fst (handleToolCall (mock_env 200 ''{}'') ''create_item'' (Some item_args)) =
       [\<lparr>url = BASE_URL (mock_env 200 ''{}'') @ ''/items'', http_method = POST,
         headers = [(''Authorization'', API_KEY (mock_env 200 ''{}'')),
                    (''Content-Type'', ''application/json'')],
         body = Some (Text t)\<rparr>]"
    by blast
  then have "t = item_text"
    using create_item_text
    by (simp add: create_item_sent api_options_def truthy_create_item_body)
  with sent show ?thesis
    by (simp add: mock_env_def get_def item_args_def)
qed

text \<open>
  C1 as stated sends the caller's value whenever one is supplied; \<open>tags\<close> supplied as
  \<open>null\<close> is sent as the empty array.
\<close>

theorem create_item_null_tags_sent_empty:
  "get null_tags_args ''tags'' = JNull
   \<and> fst (handleToolCall (mock_env 200 ''{}'') ''create_item'' (Some null_tags_args)) =
       [\<lparr>url = ''https://api.test/api/v1/items'', http_method = POST,
         headers = [(''Authorization'', ''secret''), (''Content-Type'', ''application/json'')],
         body = Some (Text null_tags_text)\<rparr>]"
  by (simp add: create_item_sent api_options_def mock_env_def JSON_stringify_def
      create_item_body_def null_tags_args_def null_tags_text_def get_def or_else_def
      Quote_def quote_char_def dq_def)

section \<open>The body of \<open>update_item\<close>\<close>

lemma assign_fresh: "k \<notin> set (map fst obj) \<Longrightarrow> assign obj k v = obj @ [(k, v)]"
  by (simp add: assign_def)

lemma foldl_set_if_defined:
  "distinct (map snd fs) \<Longrightarrow> set (map snd fs) \<inter> set (map fst acc) = {} \<Longrightarrow>
   foldl (\<lambda>u ak. set_if_defined args u (fst ak) (snd ak)) acc fs =
     acc @ map (\<lambda>(a, k). (k, get args a)) (filter (\<lambda>(a, k). get args a \<noteq> JUndefined) fs)"
proof (induction fs arbitrary: acc)
  case Nil
  then show ?case by simp
next
  case (Cons f fs)
  from Cons.prems have fresh: "snd f \<notin> set (map fst acc)" by auto
  let ?acc = "set_if_defined args acc (fst f) (snd f)"
  have step: "?acc = acc @ (if get args (fst f) \<noteq> JUndefined
                            then [(snd f, get args (fst f))] else [])"
    using fresh by (simp add: set_if_defined_def assign_fresh)
  have "set (map fst ?acc) \<subseteq> insert (snd f) (set (map fst acc))"
    unfolding step by auto
  moreover from Cons.prems
  have "set (map snd fs) \<inter> insert (snd f) (set (map fst acc)) = {}" by auto
  ultimately have "set (map snd fs) \<inter> set (map fst ?acc) = {}" by blast
  with Cons.prems Cons.IH [of ?acc]
  have "foldl (\<lambda>u ak. set_if_defined args u (fst ak) (snd ak)) ?acc fs =
     ?acc @ map (\<lambda>(a, k). (k, get args a)) (filter (\<lambda>(a, k). get args a \<noteq> JUndefined) fs)"
    by simp
  then show ?case by (simp add: step split_def)
qed

lemma updateData_eq:
  "updateData args =
     map (\<lambda>(a, k). (k, get args a))
       (filter (\<lambda>(a, k). get args a \<noteq> JUndefined)
          [(''title'', ''title''),
           (''description'', ''description''),
           (''statusId'', ''statusId''),
           (''rowId'', ''rowId''),
           (''boardId'', ''boardId''),
           (''assigneeId'', ''userId''),
           (''startDate'', ''startDate''),
           (''dueDate'', ''dueDate''),
           (''color'', ''color''),
           (''tags'', ''tags''),
           (''customFields'', ''customFields''),
           (''blocking'', ''blocking''),
           (''waiting'', ''waiting''),
           (''archived'', ''archived''),
           (''milestone'', ''milestone''),
           (''progress'', ''progress''),
           (''parentId'', ''parentId'')])"
proof -
  let ?fields = "[(''title'', ''title''),
           (''description'', ''description''),
           (''statusId'', ''statusId''),
           (''rowId'', ''rowId''),
           (''boardId'', ''boardId''),
           (''assigneeId'', ''userId''),
           (''startDate'', ''startDate''),
           (''dueDate'', ''dueDate''),
           (''color'', ''color''),
           (''tags'', ''tags''),
           (''customFields'', ''customFields''),
           (''blocking'', ''blocking''),
           (''waiting'', ''waiting''),
           (''archived'', ''archived''),
           (''milestone'', ''milestone''),
           (''progress'', ''progress''),
           (''parentId'', ''parentId'')]"
  have "updateData args = foldl (\<lambda>u ak. set_if_defined args u (fst ak) (snd ak)) [] ?fields"
    by (simp add: updateData_def Let_def)
  also have "\<dots> = [] @ map (\<lambda>(a, k). (k, get args a))
      (filter (\<lambda>(a, k). get args a \<noteq> JUndefined) ?fields)"
    by (rule foldl_set_if_defined) simp_all
  finally show ?thesis by simp
qed

text \<open>What a list of renamed arguments, filtered, holds under a key.\<close>

lemma map_of_renamed:
  "distinct (map snd fs) \<Longrightarrow> (a, k) \<in> set fs \<Longrightarrow>
   map_of (map (\<lambda>(a, k). (k, f a)) (filter (\<lambda>(a, k). P a) fs)) k =
     (if P a then Some (f a) else None)"
proof (induction fs)
  case Nil
  then show ?case by simp
next
  case (Cons x fs)
  obtain a' k' where x: "x = (a', k')" by (cases x)
  show ?case
  proof (cases "(a, k) = (a', k')")
    case True
    with Cons.prems x have "k \<notin> snd ` set fs" by auto
    then have "k \<notin> fst ` set (map (\<lambda>(a, k). (k, f a)) (filter (\<lambda>(a, k). P a) fs))"
      by force
    then have "map_of (map (\<lambda>(a, k). (k, f a)) (filter (\<lambda>(a, k). P a) fs)) k = None"
      by (simp add: map_of_eq_None_iff)
    with True x show ?thesis by simp
  next
    case False
    with Cons.prems x have mem: "(a, k) \<in> set fs" and "k \<noteq> k'" by force+
    with Cons x show ?thesis by simp
  qed
qed

lemma keys_renamed:
  "set (map fst (map (\<lambda>(a, k). (k, f a)) (filter (\<lambda>(a, k). P a) fs))) \<subseteq> set (map snd fs)"
  by force

lemma distinct_renamed:
  "distinct (map snd fs) \<Longrightarrow>
   distinct (map fst (map (\<lambda>(a, k). (k, f a)) (filter (\<lambda>(a, k). P a) fs)))"
  by (induction fs) force+

lemma update_item_sent:
  "fst (handleToolCall e ''update_item'' (Some args)) =
     [api_options e (''/items/'' @ ToString (get args ''itemId'')) PUT
        (JObj [(''data'', JObj (updateData args))])]"
  by (simp add: handleToolCall_def reading_def update_item_def apiRequest_sent)

lemma values_renamed:
  "(k, v) \<in> set (map (\<lambda>(a, k). (k, f a)) (filter (\<lambda>(a, k). f a \<noteq> u) fs)) \<Longrightarrow> v \<noteq> u"
  by (induction fs) (auto split: if_splits)

lemma none_renamed:
  "\<forall>a \<in> set (map fst fs). \<not> P a \<Longrightarrow> filter (\<lambda>(a, k). P a) fs = []"
  by (induction fs) auto

text \<open>
  C2. The body of an \<open>update_item\<close> call is the JSON text of \<open>{data: D}\<close>, and every
  request the call sends is a PUT with that body; with a string \<open>itemId\<close> the call sends
  exactly one, to \<open>/items/<itemId>\<close>. \<open>D\<close> holds, in the order of the seventeen update
  fields, one key for each field whose argument is not \<open>undefined\<close>, with the argument's
  value, and nothing else: no key twice, no value \<open>undefined\<close>. The \<open>assigneeId\<close>
  argument is written under the key \<open>userId\<close>, and no key is called \<open>assigneeId\<close>. When
  no argument but \<open>itemId\<close> is given, \<open>D\<close> is empty and the text is \<open>{"data":{}}\<close>.
  A call without an argument record sends nothing.
\<close>

theorem update_item_request:
  "\<exists>D t.
     D = map (\<lambda>(a, k). (k, get args a))
           (filter (\<lambda>(a, k). get args a \<noteq> JUndefined)
              [(''title'', ''title''),
               (''description'', ''description''),
               (''statusId'', ''statusId''),
               (''rowId'', ''rowId''),
               (''boardId'', ''boardId''),
               (''assigneeId'', ''userId''),
               (''startDate'', ''startDate''),
               (''dueDate'', ''dueDate''),
               (''color'', ''color''),
               (''tags'', ''tags''),
               (''customFields'', ''customFields''),
               (''blocking'', ''blocking''),
               (''waiting'', ''waiting''),
               (''archived'', ''archived''),
               (''milestone'', ''milestone''),
               (''progress'', ''progress''),
               (''parentId'', ''parentId'')])
     \<and> JSON_stringify (JObj [(''data'', JObj D)]) 0 = Some t
     \<and> (\<forall>req \<in> set (fst (handleToolCall e ''update_item'' (Some args))).
           http_method req = PUT \<and> body req = Some (Text t))
     \<and> (\<forall>i. get args ''itemId'' = JStr i \<longrightarrow>
           fst (handleToolCall e ''update_item'' (Some args)) =
             [\<lparr>url = BASE_URL e @ ''/items/'' @ i, http_method = PUT,
               headers = [(''Authorization'', API_KEY e),
                          (''Content-Type'', ''application/json'')],
               body = Some (Text t)\<rparr>])
     \<and> distinct (map fst D)
     \<and> (\<forall>k v. (k, v) \<in> set D \<longrightarrow> v \<noteq> JUndefined)
     \<and> map_of D ''userId'' =
         (if get args ''assigneeId'' \<noteq> JUndefined then Some (get args ''assigneeId'') else None)
     \<and> ''assigneeId'' \<notin> set (map fst D)
     \<and> ((\<forall>a. a \<noteq> ''itemId'' \<longrightarrow> get args a = JUndefined) \<longrightarrow>
           D = [] \<and> t = ''{'' @ [CHR 0x22] @ ''data'' @ [CHR 0x22] @ '':{}}'')
     \<and> fst (handleToolCall e ''update_item'' None) = []"
proof -
  have no_record: "fst (handleToolCall e ''update_item'' None) = []"
    by (simp add: handleToolCall_def reading_def)
  let ?fields = "[(''title'', ''title''),
               (''description'', ''description''),
               (''statusId'', ''statusId''),
               (''rowId'', ''rowId''),
               (''boardId'', ''boardId''),
               (''assigneeId'', ''userId''),
               (''startDate'', ''startDate''),
               (''dueDate'', ''dueDate''),
               (''color'', ''color''),
               (''tags'', ''tags''),
               (''customFields'', ''customFields''),
               (''blocking'', ''blocking''),
               (''waiting'', ''waiting''),
               (''archived'', ''archived''),
               (''milestone'', ''milestone''),
               (''progress'', ''progress''),
               (''parentId'', ''parentId'')]"
  define D where "D = map (\<lambda>(a, k). (k, get args a))
      (filter (\<lambda>(a, k). get args a \<noteq> JUndefined) ?fields)"
  have data: "updateData args = D"
    unfolding D_def by (rule updateData_eq)
  have keys: "distinct (map snd ?fields)"
    by simp
  obtain t where t: "JSON_stringify (JObj [(''data'', JObj D)]) 0 = Some t"
    using JSON_stringify_defined [of "JObj [(''data'', JObj D)]" 0] by auto
  have sent: "fst (handleToolCall e ''update_item'' (Some args)) =
      [\<lparr>url = BASE_URL e @ ''/items/'' @ ToString (get args ''itemId''), http_method = PUT,
        headers = [(''Authorization'', API_KEY e), (''Content-Type'', ''application/json'')],
        body = Some (Text t)\<rparr>]"
    using t unfolding update_item_sent data by (simp add: api_options_def)
  have every: "\<forall>req \<in> set (fst (handleToolCall e ''update_item'' (Some args))).
      http_method req = PUT \<and> body req = Some (Text t)"
    unfolding sent by simp
  have with_id: "\<forall>i. get args ''itemId'' = JStr i \<longrightarrow>
      fst (handleToolCall e ''update_item'' (Some args)) =
        [\<lparr>url = BASE_URL e @ ''/items/'' @ i, http_method = PUT,
          headers = [(''Authorization'', API_KEY e), (''Content-Type'', ''application/json'')],
          body = Some (Text t)\<rparr>]"
    unfolding sent by simp
  have once: "distinct (map fst D)"
    unfolding D_def using keys by (rule distinct_renamed)
  have defined: "\<forall>k v. (k, v) \<in> set D \<longrightarrow> v \<noteq> JUndefined"
    unfolding D_def using values_renamed [of _ _ "get args" JUndefined ?fields] by blast
  have user: "map_of D ''userId'' =
      (if get args ''assigneeId'' \<noteq> JUndefined then Some (get args ''assigneeId'') else None)"
    unfolding D_def using keys by (rule map_of_renamed) simp
  have "''assigneeId'' \<notin> set (map snd ?fields)"
    by simp
  with keys_renamed [of "get args" "\<lambda>a. get args a \<noteq> JUndefined" ?fields]
  have no_old: "''assigneeId'' \<notin> set (map fst D)"
    unfolding D_def by blast
  have only_id: "(\<forall>a. a \<noteq> ''itemId'' \<longrightarrow> get args a = JUndefined) \<longrightarrow>
      D = [] \<and> t = ''{'' @ [CHR 0x22] @ ''data'' @ [CHR 0x22] @ '':{}}''"
  proof
    assume absent: "\<forall>a. a \<noteq> ''itemId'' \<longrightarrow> get args a = JUndefined"
    have "\<forall>a \<in> set (map fst ?fields). a \<noteq> ''itemId''"
      by simp
    with absent have "\<forall>a \<in> set (map fst ?fields). \<not> get args a \<noteq> JUndefined"
      by blast
    then have "filter (\<lambda>(a, k). get args a \<noteq> JUndefined) ?fields = []"
      by (rule none_renamed)
    then have "D = []" unfolding D_def by (simp only: list.map)
    with t show "D = [] \<and> t = ''{'' @ [CHR 0x22] @ ''data'' @ [CHR 0x22] @ '':{}}''"
      by (simp add: JSON_stringify_def Quote_def quote_char_def)
  qed
  from D_def t every with_id once defined user no_old only_id no_record show ?thesis
    by (intro exI [of _ D] exI [of _ t] conjI)
qed

lemma update_text_sent:
  "fst (handleToolCall (mock_env 200 ''{}'') ''update_item'' (Some update_args)) =
     [\<lparr>url = ''https://api.test/api/v1/items/I1'', http_method = PUT,
       headers = [(''Authorization'', ''secret''), (''Content-Type'', ''application/json'')],
       body = Some (Text update_text)\<rparr>]"
  by (simp add: update_item_sent api_options_def updateData_eq update_args_def
      update_text_def get_def JSON_stringify_def Quote_def quote_char_def dq_def mock_env_def
      show_int_def show_nat.simps)

theorem update_item_request_witness:
  "get update_args ''itemId'' = JStr ''I1''
   \<and> fst (handleToolCall (mock_env 200 ''{}'') ''update_item'' (Some update_args)) =
       [\<lparr>url = ''https://api.test/api/v1/items/I1'', http_method = PUT,
         headers = [(''Authorization'', ''secret''), (''Content-Type'', ''application/json'')],
         body = Some (Text update_text)\<rparr>]
   \<and> get [(''itemId'', JStr ''I1'')] ''itemId'' = JStr ''I1''
   \<and> fst (handleToolCall (mock_env 200 ''{}'') ''update_item'' (Some [(''itemId'', JStr ''I1'')])) =
       [\<lparr>url = ''https://api.test/api/v1/items/I1'', http_method = PUT,
         headers = [(''Authorization'', ''secret''), (''Content-Type'', ''application/json'')],
         body = Some (Text (''{'' @ dq ''data'' @ '':{}}''))\<rparr>]"
proof -
  let ?e = "mock_env 200 ''{}''"
  let ?only = "[(''itemId'', JStr ''I1'')]"
  have full_id: "get update_args ''itemId'' = JStr ''I1''"
    by (simp add: update_args_def get_def)
  have only_id: "get ?only ''itemId'' = JStr ''I1''"
    and nothing_else: "\<forall>a. a \<noteq> ''itemId'' \<longrightarrow> get ?only a = JUndefined"
    by (simp_all add: get_def)
  from update_item_request [of ?only ?e] only_id nothing_else
  have "fst (handleToolCall ?e ''update_item'' (Some ?only)) =
       [\<lparr>url = BASE_URL ?e @ ''/items/'' @ ''I1'', http_method = PUT,
         headers = [(''Authorization'', API_KEY ?e), (''Content-Type'', ''application/json'')],
         body = Some (Text (''{'' @ [CHR 0x22] @ ''data'' @ [CHR 0x22] @ '':{}}''))\<rparr>]"
    by auto
  then have empty: "fst (handleToolCall ?e ''update_item'' (Some ?only)) =
       [\<lparr>url = ''https://api.test/api/v1/items/I1'', http_method = PUT,
         headers = [(''Authorization'', ''secret''), (''Content-Type'', ''application/json'')],
         body = Some (Text (''{'' @ dq ''data'' @ '':{}}''))\<rparr>]"
    by (simp add: mock_env_def dq_def)
  from full_id update_text_sent only_id empty show ?thesis by simp
qed

section \<open>\<open>get_board\<close>\<close>





lemma find_by_id_element:
  "find_by_id bs v = Inr b \<Longrightarrow> truthy b \<Longrightarrow> b \<in> set bs"
  by (induction bs) (auto split: sum.splits if_splits)

lemma boards_find_element:
  "boards_find j v = Inr b \<Longrightarrow> truthy b \<Longrightarrow> \<exists>bs. j = JArr bs \<and> b \<in> set bs"
  by (cases j) (simp_all add: find_by_id_element)

lemma get_board_result:
  assumes "snd (apiRequest e (''/workspaces/'' @ ToString (get args ''workspaceId'') @ ''/boards'')
                  GET JUndefined) = Inr boards"
  shows "snd (get_board e args) =
     (case boards_find boards (get args ''boardId'') of
        Inl err \<Rightarrow> Inl err
      | Inr board \<Rightarrow>
          if \<not> truthy board
            then Inl (Error (''Board '' @ ToString (get args ''boardId'')
                             @ '' not found in workspace''))
          else Inr board)"
  using assms
  by (cases "apiRequest e (''/workspaces/'' @ ToString (get args ''workspaceId'') @ ''/boards'')
               GET JUndefined")
     (simp add: get_board_def)

lemma call_tool_result:
  "snd (handleToolCall e n args) = Inr result \<Longrightarrow>
   snd (call_tool e n args) = \<lparr>content = [TextBlock (JSON_stringify result 2)], isError = None\<rparr>"
  by (cases "handleToolCall e n args") (simp add: call_tool_def)



lemma mock_boards_answer:
  "snd (apiRequest (mock_env 200 boards_text) (''/workspaces/'' @ ToString (JStr ''W1'') @ ''/boards'')
          GET JUndefined) = Inr boards_doc"
  by (simp add: apiRequest_def mock_env_def ok_def mock_parse_def boards_text_def dq_def)


section \<open>Successful calls\<close>

lemma upload_attachment_ok:
  "fst (upload_attachment e a) = [req] \<Longrightarrow> fetch e req = Inr r \<Longrightarrow> ok r \<Longrightarrow>
   response_text r \<noteq> [] \<Longrightarrow>
     snd (upload_attachment e a) = JSON_parse e (response_text r)"
  by (auto simp add: upload_attachment_def split: sum.splits)

lemma boards_pretty_text: "JSON_stringify boards_doc 2 = Some boards_pretty"
  by (simp add: JSON_stringify_def boards_doc_def boards_pretty_def nl_def dq_def Quote_def
      quote_char_def numeral_2_eq_2)

lemma board2_pretty_text:
  "JSON_stringify (JObj [(''id'', JStr ''B2''), (''title'', JStr ''Side'')]) 2 = Some board2_pretty"
  by (simp add: JSON_stringify_def board2_pretty_def nl_def dq_def Quote_def quote_char_def
      numeral_2_eq_2)

text \<open>
  C9 (as amended). When the request of a tool call is answered with a success status and
  a non-empty text that parses to the JSON value \<open>j\<close>: for every tool but \<open>get_board\<close>
  the dispatcher returns \<open>j\<close> and the endpoint answers, without an error flag, with one
  text block that is \<open>j\<close> printed with an indentation of 2; for \<open>get_board\<close> a result
  is an element of the list \<open>j\<close>, and the text block is that element printed.
\<close>

theorem call_tool_success_text:
  assumes sent: "fst (handleToolCall e n args) = [req]"
    and answer: "fetch e req = Inr r" "ok r" "response_text r \<noteq> []"
    and parsed: "JSON_parse e (response_text r) = Inr j"
  shows "(n \<noteq> ''get_board'' \<longrightarrow>
            snd (handleToolCall e n args) = Inr j
            \<and> snd (call_tool e n args) =
                \<lparr>content = [TextBlock (JSON_stringify j 2)], isError = None\<rparr>)
       \<and> (n = ''get_board'' \<longrightarrow>
            (\<forall>b. snd (handleToolCall e n args) = Inr b \<longrightarrow>
               (\<exists>bs. j = JArr bs \<and> b \<in> set bs)
               \<and> snd (call_tool e n args) =
                   \<lparr>content = [TextBlock (JSON_stringify b 2)], isError = None\<rparr>))"
proof (intro conjI impI allI)
  assume other: "n \<noteq> ''get_board''"
  show result: "snd (handleToolCall e n args) = Inr j"
  proof (cases "n = ''upload_attachment''")
    case True
    show ?thesis
    proof (cases args)
      case None
      with sent True show ?thesis by (simp add: handleToolCall_def reading_def)
    next
      case (Some a)
      with True have "handleToolCall e n args = upload_attachment e a"
        by (simp add: handleToolCall_def reading_def)
      with sent answer parsed upload_attachment_ok [of e a req r] show ?thesis by simp
    qed
  next
    case False
    with other have "one_call e (handleToolCall e n args)"
      by (rule handleToolCall_one_call)
    with sent obtain endpoint m b
      where h: "handleToolCall e n args = apiRequest e endpoint m b"
      unfolding one_call_def by auto
    with sent have "req = api_options e endpoint m b" by (simp add: apiRequest_sent)
    with answer parsed h show ?thesis by (simp add: apiRequest_ok)
  qed
  from call_tool_result [OF result]
  show "snd (call_tool e n args) = \<lparr>content = [TextBlock (JSON_stringify j 2)], isError = None\<rparr>" .
next
  fix b
  assume board: "n = ''get_board''" and found: "snd (handleToolCall e n args) = Inr b"
  from call_tool_result [OF found]
  show "snd (call_tool e n args) = \<lparr>content = [TextBlock (JSON_stringify b 2)], isError = None\<rparr>" .
  show "\<exists>bs. j = JArr bs \<and> b \<in> set bs"
  proof (cases args)
    case None
    with sent board show ?thesis by (simp add: handleToolCall_def reading_def)
  next
    case (Some a)
    let ?ep = "''/workspaces/'' @ ToString (get a ''workspaceId'') @ ''/boards''"
    from Some board have h: "handleToolCall e n args = get_board e a"
      by (simp add: handleToolCall_get_board)
    with sent get_board_sent [of e a] have "req = api_options e ?ep GET JUndefined"
      by simp
    with answer parsed have "snd (apiRequest e ?ep GET JUndefined) = Inr j"
      by (simp add: apiRequest_ok)
    from get_board_result [OF this] h found
    have "boards_find j (get a ''boardId'') = Inr b \<and> truthy b"
      by (auto split: sum.splits if_splits)
    then show ?thesis using boards_find_element by blast
  qed
qed

theorem call_tool_success_text_witness:
  "fst (handleToolCall (mock_env 200 boards_text) ''list_boards'' (Some [(''workspaceId'', JStr ''W1'')])) =
     [api_options (mock_env 200 boards_text) ''/workspaces/W1/boards'' GET JUndefined]
   \<and> fetch (mock_env 200 boards_text)
        (api_options (mock_env 200 boards_text) ''/workspaces/W1/boards'' GET JUndefined) =
       Inr \<lparr>status = 200, response_text = boards_text\<rparr>
   \<and> ok \<lparr>status = 200, response_text = boards_text\<rparr>
   \<and> boards_text \<noteq> []
   \<and> JSON_parse (mock_env 200 boards_text) boards_text = Inr boards_doc
   \<and> snd (call_tool (mock_env 200 boards_text) ''list_boards'' (Some [(''workspaceId'', JStr ''W1'')])) =
       \<lparr>content = [TextBlock (Some boards_pretty)], isError = None\<rparr>"
proof -
  let ?e = "mock_env 200 boards_text"
  let ?args = "Some [(''workspaceId'', JStr ''W1'')]"
  let ?req = "api_options ?e ''/workspaces/W1/boards'' GET JUndefined"
  let ?r = "\<lparr>status = 200, response_text = boards_text\<rparr>"
  have sent: "fst (handleToolCall ?e ''list_boards'' ?args) = [?req]"
    by (simp add: handleToolCall_def reading_def get_def apiRequest_sent)
  have answer: "fetch ?e ?req = Inr ?r" "ok ?r" "response_text ?r \<noteq> []"
    by (simp_all add: mock_env_def ok_def boards_text_def dq_def)
  have parsed: "JSON_parse ?e (response_text ?r) = Inr boards_doc"
    by (simp add: mock_env_def mock_parse_def boards_text_def dq_def)
  from call_tool_success_text [OF sent answer parsed]
  have "snd (call_tool ?e ''list_boards'' ?args) =
      \<lparr>content = [TextBlock (JSON_stringify boards_doc 2)], isError = None\<rparr>"
    by simp
  with sent answer parsed show ?thesis
    by (simp add: boards_pretty_text)
qed

text \<open>
  C9 as stated covers every tool of the catalog; \<open>get_board\<close> with its required
  arguments answers with the board found, not with the body of the backend.
\<close>

theorem get_board_text_is_not_the_body:
  "fst (handleToolCall (mock_env 200 boards_text) ''get_board''
          (Some [(''workspaceId'', JStr ''W1''), (''boardId'', JStr ''B2'')])) =
     [api_options (mock_env 200 boards_text) ''/workspaces/W1/boards'' GET JUndefined]
   \<and> fetch (mock_env 200 boards_text)
        (api_options (mock_env 200 boards_text) ''/workspaces/W1/boards'' GET JUndefined) =
       Inr \<lparr>status = 200, response_text = boards_text\<rparr>
   \<and> JSON_parse (mock_env 200 boards_text) boards_text = Inr boards_doc
   \<and> JSON_stringify boards_doc 2 = Some boards_pretty
   \<and> snd (call_tool (mock_env 200 boards_text) ''get_board''
            (Some [(''workspaceId'', JStr ''W1''), (''boardId'', JStr ''B2'')])) =
       \<lparr>content = [TextBlock (Some board2_pretty)], isError = None\<rparr>
   \<and> board2_pretty \<noteq> boards_pretty"
proof -
  let ?e = "mock_env 200 boards_text"
  let ?args = "[(''workspaceId'', JStr ''W1''), (''boardId'', JStr ''B2'')]"
  have sent: "fst (handleToolCall ?e ''get_board'' (Some ?args)) =
      [api_options ?e ''/workspaces/W1/boards'' GET JUndefined]"
    by (simp add: handleToolCall_get_board get_board_sent get_def)
  have answer: "fetch ?e (api_options ?e ''/workspaces/W1/boards'' GET JUndefined) =
      Inr \<lparr>status = 200, response_text = boards_text\<rparr>"
    by (simp add: mock_env_def)
  have parsed: "JSON_parse ?e boards_text = Inr boards_doc"
    by (simp add: mock_env_def mock_parse_def boards_text_def dq_def)
  have "snd (get_board ?e ?args) = Inr (JObj [(''id'', JStr ''B2''), (''title'', JStr ''Side'')])"
    using get_board_result [of ?e ?args boards_doc] mock_boards_answer
    by (simp add: get_def boards_doc_def)
  then have "snd (handleToolCall ?e ''get_board'' (Some ?args)) =
      Inr (JObj [(''id'', JStr ''B2''), (''title'', JStr ''Side'')])"
    by (simp add: handleToolCall_get_board)
  from call_tool_result [OF this]
  have shown: "snd (call_tool ?e ''get_board'' (Some ?args)) =
      \<lparr>content = [TextBlock (Some board2_pretty)], isError = None\<rparr>"
    by (simp add: board2_pretty_text)
  have differ: "board2_pretty \<noteq> boards_pretty"
    by (simp add: board2_pretty_def boards_pretty_def)
  from sent answer parsed boards_pretty_text shown differ show ?thesis by simp
qed

section \<open>The query of \<open>list_items\<close>\<close>

lemma join_Cons: "join sep (x # xs) = (if xs = [] then x else x @ sep @ join sep xs)"
  by (cases xs) simp_all

lemma join_append:
  "join sep (xs @ ys) =
     (if xs = [] then join sep ys else if ys = [] then join sep xs
      else join sep xs @ sep @ join sep ys)"
  by (induction xs) (auto simp add: join_Cons)

lemma sublist_join_segment:
  assumes "ys \<noteq> []"
  shows "sublist (join sep ys) (join sep (xs @ ys @ zs))"
proof -
  have mid: "sublist (join sep ys) (join sep (ys @ zs))"
    using assms by (simp add: join_append)
  show ?thesis
  proof (cases "xs = []")
    case True
    with mid show ?thesis by simp
  next
    case False
    with assms have "join sep (xs @ ys @ zs) = (join sep xs @ sep) @ join sep (ys @ zs)"
      by (simp add: join_append)
    moreover obtain ps ss where "join sep (ys @ zs) = ps @ join sep ys @ ss"
      using mid unfolding sublist_def by blast
    ultimately have "join sep (xs @ ys @ zs) = (join sep xs @ sep @ ps) @ join sep ys @ ss"
      by simp
    then show ?thesis unfolding sublist_def by blast
  qed
qed

lemma sublist_join_member:
  assumes "x \<in> set xs"
  shows "sublist x (join sep xs)"
proof -
  from assms obtain as bs where "xs = as @ [x] @ bs"
    by (auto dest: split_list)
  with sublist_join_segment [of "[x]" sep as bs] show ?thesis by simp
qed

lemma params_toString_segment:
  "ys \<noteq> [] \<Longrightarrow> sublist (params_toString ys) (params_toString (xs @ ys @ zs))"
  by (simp add: params_toString_def sublist_join_segment)

lemma params_toString_member:
  "(k, v) \<in> set ps \<Longrightarrow> sublist (urlencode k @ ''='' @ urlencode v) (params_toString ps)"
  unfolding params_toString_def
  by (rule sublist_join_member) force

lemma append_if_member:
  "truthy (get args a) \<Longrightarrow> (q, ToString (get args a)) \<in> set (append_if args a q)"
  by (simp add: append_if_def)

lemma append_if_defined_member:
  "get args a \<noteq> JUndefined \<Longrightarrow> (q, ToString (get args a)) \<in> set (append_if_defined args a q)"
  by (simp add: append_if_defined_def)

lemma append_if_pair: "(n, v) \<in> set (append_if args a q) \<Longrightarrow> n = q"
  by (auto simp add: append_if_def split: if_splits)

lemma append_if_defined_pair: "(n, v) \<in> set (append_if_defined args a q) \<Longrightarrow> n = q"
  by (auto simp add: append_if_defined_def split: if_splits)

lemma append_if_empty_string: "get args a = JStr [] \<Longrightarrow> append_if args a q = []"
  by (simp add: append_if_def)

lemma append_each_names: "append_each args a q = Inr ps \<Longrightarrow> n \<noteq> q \<Longrightarrow> n \<notin> fst ` set ps"
  by (auto simp add: append_each_def split: if_splits option.splits)

lemma append_each_array:
  "get args a = JArr xs \<Longrightarrow> append_each args a q = Inr (map (\<lambda>x. (q, ToString x)) xs)"
  by (simp add: append_each_def)

lemma filter_other_name: "n \<notin> fst ` set ps \<Longrightarrow> filter (\<lambda>p. fst p = n) ps = []"
  by (induction ps) auto

lemma filter_same_name:
  "filter (\<lambda>p. fst p = q) (map (\<lambda>x. (q, f x)) xs) = map (\<lambda>x. (q, f x)) xs"
  by (induction xs) auto

lemma list_items_params_Inr:
  assumes "list_items_params args = Inr params"
  obtains tags cfs where
    "append_each args ''tags'' ''Tags'' = Inr tags"
    "append_each args ''customFields'' ''CustomFields'' = Inr cfs"
    "params = params_before args @ tags @ cfs @ params_after args"
  using assms by (auto simp add: list_items_params_def split: sum.splits)

lemma list_items_sent:
  "list_items_params args = Inr params \<Longrightarrow>
   fst (handleToolCall e ''list_items'' (Some args)) =
     [api_options e
        (''/items'' @ (if params_toString params \<noteq> [] then ''?'' @ params_toString params else []))
        GET JUndefined]"
  by (simp add: handleToolCall_def reading_def list_items_def Let_def apiRequest_sent)

lemma defined_filter_member:
  assumes "(a, q) \<in> set defined_filters" "get args a \<noteq> JUndefined"
  shows "(q, ToString (get args a)) \<in> set (params_before args @ params_after args)"
proof -
  from assms(1) consider "a = ''completed'' \<and> q = ''Completed''"
    | "a = ''includeChildItems'' \<and> q = ''IncludeChildItems''"
    | "a = ''skip'' \<and> q = ''Skip''" | "a = ''take'' \<and> q = ''Take''"
    by (auto simp add: defined_filters_def)
  then show ?thesis
    using assms(2) append_if_defined_member [of args a q]
    by cases (simp_all add: params_before_def params_after_def)
qed

lemma string_filter_member:
  assumes "(a, q) \<in> set string_filters" "truthy (get args a)"
  shows "(q, ToString (get args a)) \<in> set (params_before args @ params_after args)"
proof -
  from assms(1) have "(a, q) \<in> set (take 7 string_filters) \<or> (a, q) \<in> set (drop 7 string_filters)"
    by (metis append_take_drop_id set_append Un_iff)
  then show ?thesis
  proof
    assume "(a, q) \<in> set (take 7 string_filters)"
    then have "(q, ToString (get args a)) \<in> set (params_before args)"
      using assms(2) append_if_member [of args a q]
      by (auto simp add: string_filters_def params_before_def)
    then show ?thesis by simp
  next
    assume "(a, q) \<in> set (drop 7 string_filters)"
    then have "(q, ToString (get args a)) \<in> set (params_after args)"
      using assms(2) append_if_member [of args a q]
      by (auto simp add: string_filters_def params_after_def)
    then show ?thesis by simp
  qed
qed

lemma string_filter_omitted:
  assumes "(a, q) \<in> set string_filters" "get args a = JStr []"
  shows "q \<notin> fst ` set (params_before args @ params_after args)"
proof -
  from assms(2) have "append_if args a q = []" by (rule append_if_empty_string)
  with assms(1) show ?thesis
    by (auto simp add: string_filters_def params_before_def params_after_def
        dest: append_if_pair append_if_defined_pair)
qed

lemma scalar_names:
  "n \<in> fst ` set (params_before args @ params_after args) \<Longrightarrow>
   n \<in> snd ` set (string_filters @ defined_filters)"
  unfolding params_before_def params_after_def string_filters_def defined_filters_def
  by (auto simp add: append_if_def append_if_defined_def split: if_splits)

lemma string_filter_not_array:
  "(a, q) \<in> set string_filters \<Longrightarrow> q \<noteq> ''Tags'' \<and> q \<noteq> ''CustomFields''"
  by (auto simp add: string_filters_def)

lemma array_name_not_scalar:
  "''Tags'' \<notin> fst ` set (params_before args @ params_after args)"
  "''CustomFields'' \<notin> fst ` set (params_before args @ params_after args)"
  using scalar_names [of "''Tags''" args] scalar_names [of "''CustomFields''" args]
  by (auto simp add: string_filters_def defined_filters_def)

lemma capitalized_filters:
  "(a, q) \<in> set (string_filters @ defined_filters @ array_filters) \<Longrightarrow>
   q = capitalized a \<and> q \<noteq> a"
  by (auto simp add: string_filters_def defined_filters_def array_filters_def capitalized_def)

text \<open>
  C10. Whenever \<open>list_items\<close> comes to send its request: each of \<open>completed\<close>,
  \<open>includeChildItems\<close>, \<open>skip\<close> and \<open>take\<close> that is not \<open>undefined\<close> is a pair of the
  query, written \<open>Name=value\<close> in the query string, so \<open>false\<close> and \<open>0\<close> do appear; a
  string filter given as the empty string leaves no pair of its name in the query.
\<close>

theorem list_items_defined_and_empty:
  assumes "list_items_params args = Inr params"
  shows "(\<forall>(a, q) \<in> set defined_filters.
            get args a \<noteq> JUndefined \<longrightarrow>
              (q, ToString (get args a)) \<in> set params
              \<and> sublist (urlencode q @ ''='' @ urlencode (ToString (get args a)))
                   (params_toString params))
       \<and> (\<forall>(a, q) \<in> set string_filters. get args a = JStr [] \<longrightarrow> q \<notin> fst ` set params)
       \<and> fst (handleToolCall e ''list_items'' (Some args)) =
           [api_options e
              (''/items'' @ (if params_toString params \<noteq> []
                             then ''?'' @ params_toString params else []))
              GET JUndefined]"
proof -
  from assms obtain tags cfs where
    tags: "append_each args ''tags'' ''Tags'' = Inr tags" and
    cfs: "append_each args ''customFields'' ''CustomFields'' = Inr cfs" and
    params: "params = params_before args @ tags @ cfs @ params_after args"
    by (rule list_items_params_Inr)
  have scalar: "set (params_before args @ params_after args) \<subseteq> set params"
    by (auto simp add: params)
  have included: "(q, ToString (get args a)) \<in> set params
      \<and> sublist (urlencode q @ ''='' @ urlencode (ToString (get args a))) (params_toString params)"
    if "(a, q) \<in> set defined_filters" "get args a \<noteq> JUndefined" for a q
  proof -
    from that scalar defined_filter_member [of a q args]
    have member: "(q, ToString (get args a)) \<in> set params" by blast
    from member params_toString_member [OF member] show ?thesis by (intro conjI)
  qed
  have omitted: "q \<notin> fst ` set params"
    if "(a, q) \<in> set string_filters" "get args a = JStr []" for a q
  proof -
    from that have "q \<notin> fst ` set (params_before args @ params_after args)"
      by (rule string_filter_omitted)
    moreover from that(1) string_filter_not_array [of a q]
    have "q \<notin> fst ` set tags" "q \<notin> fst ` set cfs"
      using append_each_names [OF tags, of q] append_each_names [OF cfs, of q] by simp_all
    ultimately show ?thesis by (auto simp add: params)
  qed
  from included omitted list_items_sent [OF assms, of e] show ?thesis by blast
qed

lemma filter_append_if:
  "filter (\<lambda>p. fst p = n) (append_if args a q) = (if q = n then append_if args a q else [])"
  by (simp add: append_if_def)

lemma filter_append_if_defined:
  "filter (\<lambda>p. fst p = n) (append_if_defined args a q) =
     (if q = n then append_if_defined args a q else [])"
  by (simp add: append_if_defined_def)

lemma string_filter_pairs:
  "\<forall>(a, q) \<in> set string_filters.
     filter (\<lambda>p. fst p = q) (params_before args @ params_after args) = append_if args a q"
  by (simp add: string_filters_def params_before_def params_after_def filter_append_if
      filter_append_if_defined)

lemma defined_filter_pairs:
  "\<forall>(a, q) \<in> set defined_filters.
     filter (\<lambda>p. fst p = q) (params_before args @ params_after args) =
       append_if_defined args a q"
  by (simp add: defined_filters_def params_before_def params_after_def filter_append_if
      filter_append_if_defined)

lemma defined_filter_not_array:
  "(a, q) \<in> set defined_filters \<Longrightarrow> q \<noteq> ''Tags'' \<and> q \<noteq> ''CustomFields''"
  by (auto simp add: defined_filters_def)

lemma append_each_falsy: "\<not> truthy (get args a) \<Longrightarrow> append_each args a q = Inr []"
  by (simp add: append_each_def)

text \<open>
  C4 (as amended). Whenever \<open>list_items\<close> comes to send its request, the request is a GET
  of \<open>/items\<close> followed by the query string, when there is one. Every filter has a
  query name that is its own name capitalized. A string filter gives exactly one pair
  under that name when its value is truthy, and none otherwise, so none when it is the
  empty string. Each of \<open>completed\<close>, \<open>includeChildItems\<close>, \<open>skip\<close> and \<open>take\<close> gives
  exactly one pair whenever it is not \<open>undefined\<close>, and none otherwise. Each of the two
  array filters, given as an array, gives one pair per element, in order, and these
  pairs stand next to each other in the query string, joined by \<open>&\<close>; it gives none
  when its value is not truthy.
\<close>

theorem list_items_query:
  assumes "list_items_params args = Inr params"
  shows "fst (handleToolCall e ''list_items'' (Some args)) =
           [api_options e
              (''/items'' @ (if params_toString params \<noteq> []
                             then ''?'' @ params_toString params else []))
              GET JUndefined]
       \<and> (\<forall>(a, q) \<in> set string_filters.
            q = capitalized a \<and> q \<noteq> a
            \<and> filter (\<lambda>p. fst p = q) params =
                (if truthy (get args a) then [(q, ToString (get args a))] else [])
            \<and> (truthy (get args a) \<longrightarrow>
                 sublist (urlencode q @ ''='' @ urlencode (ToString (get args a)))
                   (params_toString params)))
       \<and> (\<forall>(a, q) \<in> set defined_filters.
            q = capitalized a \<and> q \<noteq> a
            \<and> filter (\<lambda>p. fst p = q) params =
                (if get args a \<noteq> JUndefined then [(q, ToString (get args a))] else [])
            \<and> (get args a \<noteq> JUndefined \<longrightarrow>
                 sublist (urlencode q @ ''='' @ urlencode (ToString (get args a)))
                   (params_toString params)))
       \<and> (\<forall>(a, q) \<in> set array_filters.
            q = capitalized a \<and> q \<noteq> a
            \<and> (\<forall>xs. get args a = JArr xs \<longrightarrow>
                 filter (\<lambda>p. fst p = q) params = map (\<lambda>x. (q, ToString x)) xs
                 \<and> (xs \<noteq> [] \<longrightarrow>
                      sublist (params_toString (map (\<lambda>x. (q, ToString x)) xs))
                        (params_toString params)))
            \<and> (\<not> truthy (get args a) \<longrightarrow> filter (\<lambda>p. fst p = q) params = []))"
proof -
  from assms obtain tags cfs where
    tags: "append_each args ''tags'' ''Tags'' = Inr tags" and
    cfs: "append_each args ''customFields'' ''CustomFields'' = Inr cfs" and
    params: "params = params_before args @ tags @ cfs @ params_after args"
    by (rule list_items_params_Inr)
  have scalar: "set (params_before args @ params_after args) \<subseteq> set params"
    by (auto simp add: params)
  have scalar_pairs: "filter (\<lambda>p. fst p = q) params =
      filter (\<lambda>p. fst p = q) (params_before args @ params_after args)"
    if "q \<noteq> ''Tags''" "q \<noteq> ''CustomFields''" for q
  proof -
    from that have "filter (\<lambda>p. fst p = q) tags = []" "filter (\<lambda>p. fst p = q) cfs = []"
      using append_each_names [OF tags, of q] append_each_names [OF cfs, of q]
      by (simp_all add: filter_other_name)
    then show ?thesis by (simp add: params)
  qed
  have strings: "q = capitalized a \<and> q \<noteq> a
      \<and> filter (\<lambda>p. fst p = q) params =
          (if truthy (get args a) then [(q, ToString (get args a))] else [])
      \<and> (truthy (get args a) \<longrightarrow>
           sublist (urlencode q @ ''='' @ urlencode (ToString (get args a)))
             (params_toString params))"
    if "(a, q) \<in> set string_filters" for a q
  proof (intro conjI impI)
    from that capitalized_filters [of a q]
    show "q = capitalized a" "q \<noteq> a" by auto
    from that string_filter_pairs [of args]
    have "filter (\<lambda>p. fst p = q) (params_before args @ params_after args) = append_if args a q"
      by blast
    with scalar_pairs [of q] string_filter_not_array [OF that]
    show "filter (\<lambda>p. fst p = q) params =
        (if truthy (get args a) then [(q, ToString (get args a))] else [])"
      by (simp add: append_if_def)
    assume "truthy (get args a)"
    with that have "(q, ToString (get args a)) \<in> set (params_before args @ params_after args)"
      by (rule string_filter_member)
    with scalar have "(q, ToString (get args a)) \<in> set params" by blast
    then show "sublist (urlencode q @ ''='' @ urlencode (ToString (get args a)))
        (params_toString params)"
      by (rule params_toString_member)
  qed
  have defineds: "q = capitalized a \<and> q \<noteq> a
      \<and> filter (\<lambda>p. fst p = q) params =
          (if get args a \<noteq> JUndefined then [(q, ToString (get args a))] else [])
      \<and> (get args a \<noteq> JUndefined \<longrightarrow>
           sublist (urlencode q @ ''='' @ urlencode (ToString (get args a)))
             (params_toString params))"
    if "(a, q) \<in> set defined_filters" for a q
  proof (intro conjI impI)
    from that capitalized_filters [of a q]
    show "q = capitalized a" "q \<noteq> a" by auto
    from that defined_filter_pairs [of args]
    have "filter (\<lambda>p. fst p = q) (params_before args @ params_after args) =
        append_if_defined args a q"
      by blast
    with scalar_pairs [of q] defined_filter_not_array [OF that]
    show "filter (\<lambda>p. fst p = q) params =
        (if get args a \<noteq> JUndefined then [(q, ToString (get args a))] else [])"
      by (simp add: append_if_defined_def)
    assume "get args a \<noteq> JUndefined"
    with that have "(q, ToString (get args a)) \<in> set (params_before args @ params_after args)"
      by (rule defined_filter_member)
    with scalar have "(q, ToString (get args a)) \<in> set params" by blast
    then show "sublist (urlencode q @ ''='' @ urlencode (ToString (get args a)))
        (params_toString params)"
      by (rule params_toString_member)
  qed
  have no_tags: "filter (\<lambda>p. fst p = ''Tags'') (params_before args) = []"
      "filter (\<lambda>p. fst p = ''Tags'') (params_after args) = []"
      "filter (\<lambda>p. fst p = ''Tags'') cfs = []"
    using array_name_not_scalar(1) [of args] append_each_names [OF cfs, of "''Tags''"]
    by (simp_all add: filter_other_name image_Un)
  have no_cfs: "filter (\<lambda>p. fst p = ''CustomFields'') (params_before args) = []"
      "filter (\<lambda>p. fst p = ''CustomFields'') (params_after args) = []"
      "filter (\<lambda>p. fst p = ''CustomFields'') tags = []"
    using array_name_not_scalar(2) [of args] append_each_names [OF tags, of "''CustomFields''"]
    by (simp_all add: filter_other_name image_Un)
  have repeated: "q = capitalized a \<and> q \<noteq> a
      \<and> (\<forall>xs. get args a = JArr xs \<longrightarrow>
           filter (\<lambda>p. fst p = q) params = map (\<lambda>x. (q, ToString x)) xs
           \<and> (xs \<noteq> [] \<longrightarrow>
                sublist (params_toString (map (\<lambda>x. (q, ToString x)) xs))
                  (params_toString params)))
      \<and> (\<not> truthy (get args a) \<longrightarrow> filter (\<lambda>p. fst p = q) params = [])"
    if "(a, q) \<in> set array_filters" for a q
  proof -
    from that capitalized_filters [of a q]
    have names: "q = capitalized a \<and> q \<noteq> a" by auto
    from that consider (tag_filter) "a = ''tags''" "q = ''Tags''"
      | (field_filter) "a = ''customFields''" "q = ''CustomFields''"
      by (auto simp add: array_filters_def)
    then show ?thesis
    proof cases
      case tag_filter
      have "filter (\<lambda>p. fst p = ''Tags'') params = map (\<lambda>x. (''Tags'', ToString x)) xs
          \<and> (xs \<noteq> [] \<longrightarrow>
               sublist (params_toString (map (\<lambda>x. (''Tags'', ToString x)) xs))
                 (params_toString params))"
        if arr: "get args ''tags'' = JArr xs" for xs
      proof -
        from append_each_array [OF arr, of "''Tags''"] tags
        have eq: "tags = map (\<lambda>x. (''Tags'', ToString x)) xs" by simp
        have "xs \<noteq> [] \<longrightarrow> sublist (params_toString tags)
            (params_toString (params_before args @ tags @ (cfs @ params_after args)))"
          by (simp add: eq params_toString_segment)
        then show ?thesis
          by (simp add: params no_tags) (simp add: eq filter_same_name)
      qed
      moreover have "filter (\<lambda>p. fst p = ''Tags'') params = []"
        if "\<not> truthy (get args ''tags'')"
        using append_each_falsy [OF that, of "''Tags''"] tags
        by (simp add: params no_tags)
      ultimately show ?thesis
        using names [unfolded tag_filter] unfolding tag_filter by blast
    next
      case field_filter
      have "filter (\<lambda>p. fst p = ''CustomFields'') params =
            map (\<lambda>x. (''CustomFields'', ToString x)) xs
          \<and> (xs \<noteq> [] \<longrightarrow>
               sublist (params_toString (map (\<lambda>x. (''CustomFields'', ToString x)) xs))
                 (params_toString params))"
        if arr: "get args ''customFields'' = JArr xs" for xs
      proof -
        from append_each_array [OF arr, of "''CustomFields''"] cfs
        have eq: "cfs = map (\<lambda>x. (''CustomFields'', ToString x)) xs" by simp
        have "xs \<noteq> [] \<longrightarrow> sublist (params_toString cfs)
            (params_toString ((params_before args @ tags) @ cfs @ params_after args))"
          using params_toString_segment [of cfs "params_before args @ tags" "params_after args"]
          by (simp add: eq)
        then show ?thesis
          by (simp add: params no_cfs) (simp add: eq filter_same_name)
      qed
      moreover have "filter (\<lambda>p. fst p = ''CustomFields'') params = []"
        if "\<not> truthy (get args ''customFields'')"
        using append_each_falsy [OF that, of "''CustomFields''"] cfs
        by (simp add: params no_cfs)
      ultimately show ?thesis
        using names [unfolded field_filter] unfolding field_filter by blast
    qed
  qed
  from strings defineds repeated list_items_sent [OF assms, of e] show ?thesis by blast
qed

lemma tag_params:
  "list_items_params
     [(''workspaceId'', JStr ''W1''), (''completed'', JBool False),
      (''tags'', JArr [JStr ''a'', JStr ''b''])] =
     Inr [(''WorkspaceId'', ''W1''), (''Completed'', ''false''), (''Tags'', ''a''), (''Tags'', ''b'')]"
  by (simp add: list_items_params_def params_before_def params_after_def append_if_def
      append_if_defined_def append_each_def get_def)

lemma tag_query:
  "params_toString
     [(''WorkspaceId'', ''W1''), (''Completed'', ''false''), (''Tags'', ''a''), (''Tags'', ''b'')] =
     ''WorkspaceId=W1&Completed=false&Tags=a&Tags=b''"
  by (simp add: params_toString_def urlencode_def urlencode_char_def)

theorem list_items_query_witness:
  "list_items_params
     [(''workspaceId'', JStr ''W1''), (''completed'', JBool False),
      (''tags'', JArr [JStr ''a'', JStr ''b''])] =
     Inr [(''WorkspaceId'', ''W1''), (''Completed'', ''false''), (''Tags'', ''a''), (''Tags'', ''b'')]
   \<and> truthy (JStr ''W1'')
   \<and> JBool False \<noteq> JUndefined
   \<and> fst (handleToolCall (mock_env 200 ''[]'') ''list_items''
          (Some [(''workspaceId'', JStr ''W1''), (''completed'', JBool False),
                 (''tags'', JArr [JStr ''a'', JStr ''b''])])) =
       [\<lparr>url = ''https://api.test/api/v1/items?WorkspaceId=W1&Completed=false&Tags=a&Tags=b'',
         http_method = GET,
         headers = [(''Authorization'', ''secret''), (''Content-Type'', ''application/json'')],
         body = None\<rparr>]
   \<and> sublist ''Completed=false'' ''WorkspaceId=W1&Completed=false&Tags=a&Tags=b''
   \<and> sublist ''Tags=a&Tags=b'' ''WorkspaceId=W1&Completed=false&Tags=a&Tags=b''"
proof -
  let ?args = "[(''workspaceId'', JStr ''W1''), (''completed'', JBool False),
                (''tags'', JArr [JStr ''a'', JStr ''b''])]"
  let ?params = "[(''WorkspaceId'', ''W1''), (''Completed'', ''false''), (''Tags'', ''a''),
                  (''Tags'', ''b'')]"
  have tags: "(''tags'', ''Tags'') \<in> set array_filters"
    and completed: "(''completed'', ''Completed'') \<in> set defined_filters"
    by (simp_all add: array_filters_def defined_filters_def)
  have given: "get ?args ''tags'' = JArr [JStr ''a'', JStr ''b'']"
      "get ?args ''completed'' \<noteq> JUndefined"
      "ToString (get ?args ''completed'') = ''false''"
    by (simp_all add: get_def)
  from list_items_query [OF tag_params, of "mock_env 200 ''[]''"] tags completed given
  have sent: "fst (handleToolCall (mock_env 200 ''[]'') ''list_items'' (Some ?args)) =
      [api_options (mock_env 200 ''[]'')
         (''/items'' @ (if params_toString ?params \<noteq> [] then ''?'' @ params_toString ?params
                        else [])) GET JUndefined]"
    and repeated: "sublist
        (params_toString (map (\<lambda>x. (''Tags'', ToString x)) [JStr ''a'', JStr ''b'']))
        (params_toString ?params)"
    and defined: "sublist (urlencode ''Completed'' @ ''='' @ urlencode ''false'')
        (params_toString ?params)"
    by auto
  from repeated have "sublist ''Tags=a&Tags=b'' ''WorkspaceId=W1&Completed=false&Tags=a&Tags=b''"
    by (simp add: tag_query) (simp add: params_toString_def urlencode_def urlencode_char_def)
  moreover from defined
  have "sublist ''Completed=false'' ''WorkspaceId=W1&Completed=false&Tags=a&Tags=b''"
    by (simp add: tag_query) (simp add: urlencode_def urlencode_char_def)
  ultimately show ?thesis
    using sent tag_params
    by (simp add: tag_query api_options_def mock_env_def)
qed

text \<open>
  C4 as stated makes every supplied filter appear; a \<open>workspaceId\<close> supplied as the
  empty string does not.
\<close>

theorem list_items_empty_workspaceId_omitted:
  "get [(''workspaceId'', JStr [])] ''workspaceId'' = JStr []
   \<and> fst (handleToolCall (mock_env 200 ''[]'') ''list_items'' (Some [(''workspaceId'', JStr [])])) =
       [\<lparr>url = ''https://api.test/api/v1/items'', http_method = GET,
         headers = [(''Authorization'', ''secret''), (''Content-Type'', ''application/json'')],
         body = None\<rparr>]"
  by (simp add: handleToolCall_def reading_def list_items_def list_items_params_def
      params_before_def params_after_def append_if_def append_if_defined_def append_each_def
      get_def params_toString_def apiRequest_sent api_options_def mock_env_def)

lemma paging_params:
  "list_items_params [(''workspaceId'', JStr []), (''completed'', JBool False), (''skip'', JNum 0)] =
     Inr [(''Completed'', ''false''), (''Skip'', ''0'')]"
  by (simp add: list_items_params_def params_before_def params_after_def append_if_def
      append_if_defined_def append_each_def get_def show_int_def show_nat.simps)

lemma paging_query:
  "params_toString [(''Completed'', ''false''), (''Skip'', ''0'')] = ''Completed=false&Skip=0''"
  by (simp add: params_toString_def urlencode_def urlencode_char_def)

theorem list_items_defined_and_empty_witness:
  "list_items_params [(''workspaceId'', JStr []), (''completed'', JBool False), (''skip'', JNum 0)] =
     Inr [(''Completed'', ''false''), (''Skip'', ''0'')]
   \<and> get [(''workspaceId'', JStr []), (''completed'', JBool False), (''skip'', JNum 0)] ''skip''
       \<noteq> JUndefined
   \<and> get [(''workspaceId'', JStr []), (''completed'', JBool False), (''skip'', JNum 0)]
        ''workspaceId'' = JStr []
   \<and> sublist ''Skip=0'' ''Completed=false&Skip=0''
   \<and> ''WorkspaceId'' \<notin> fst ` set [(''Completed'', ''false''), (''Skip'', ''0'')]
   \<and> fst (handleToolCall (mock_env 200 ''[]'') ''list_items''
          (Some [(''workspaceId'', JStr []), (''completed'', JBool False), (''skip'', JNum 0)])) =
       [\<lparr>url = ''https://api.test/api/v1/items?Completed=false&Skip=0'', http_method = GET,
         headers = [(''Authorization'', ''secret''), (''Content-Type'', ''application/json'')],
         body = None\<rparr>]"
proof -
  let ?args = "[(''workspaceId'', JStr []), (''completed'', JBool False), (''skip'', JNum 0)]"
  let ?params = "[(''Completed'', ''false''), (''Skip'', ''0'')]"
  have skip: "(''skip'', ''Skip'') \<in> set defined_filters"
    and workspace: "(''workspaceId'', ''WorkspaceId'') \<in> set string_filters"
    by (simp_all add: defined_filters_def string_filters_def)
  have given: "get ?args ''skip'' \<noteq> JUndefined" "get ?args ''workspaceId'' = JStr []"
      "ToString (get ?args ''skip'') = ''0''"
    by (simp_all add: get_def show_int_def show_nat.simps)
  from list_items_defined_and_empty [OF paging_params, of "mock_env 200 ''[]''"] skip workspace given
  have appears: "sublist (urlencode ''Skip'' @ ''='' @ urlencode ''0'') (params_toString ?params)"
    and omitted: "''WorkspaceId'' \<notin> fst ` set ?params"
    and sent: "fst (handleToolCall (mock_env 200 ''[]'') ''list_items'' (Some ?args)) =
      [api_options (mock_env 200 ''[]'')
         (''/items'' @ (if params_toString ?params \<noteq> [] then ''?'' @ params_toString ?params
                        else [])) GET JUndefined]"
    by auto
  from appears have "sublist ''Skip=0'' ''Completed=false&Skip=0''"
    by (simp add: paging_query) (simp add: urlencode_def urlencode_char_def)
  with sent omitted paging_params given(1,2) show ?thesis
    by (simp add: paging_query api_options_def mock_env_def)
qed

end
